theory Spec2Isabelle
  imports Complex_Main "HOL-Library.Word" "HOL-Library.Log_Nat"
begin

section \<open>Strings and numbers of the host language\<close>

text \<open>
  A string of the program is a sequence of UTF-16 code units, and \<open>length\<close>,
  \<open>slice\<close>, \<open>repeat\<close> and \<open>padEnd\<close> count code units. The block characters of
  the progress bar and the symbols of the message table lie outside ASCII, so a
  character is a 16-bit word here and \<open>ascii\<close> embeds the ASCII literals.
  Numbers that the code prints are integers, printed in decimal as the host
  prints an integer of fewer than 22 digits.
\<close>

type_synonym jschar = "16 word"
type_synonym jsstring = "jschar list"

definition ascii :: "string \<Rightarrow> jsstring" where
  "ascii s = map (\<lambda>c. of_nat (of_char c)) s"

definition digit :: "nat \<Rightarrow> jschar" where
  "digit d = of_nat (48 + d)"

fun show_nat :: "nat \<Rightarrow> jsstring" where
  "show_nat n = (if n < 10 then [digit n] else show_nat (n div 10) @ [digit (n mod 10)])"

declare show_nat.simps [simp del]

definition show_int :: "int \<Rightarrow> jsstring" where
  "show_int i = (if i < 0 then ascii ''-'' @ show_nat (nat (- i)) else show_nat (nat i))"

text \<open>
  A number of the host is an IEEE double. A finite double is the rational that
  it denotes, and a division, a product or a difference that need not be exact
  is rounded to the nearest double, ties to the even significand: \<open>fl\<close>, with
  a significand of 53 bits above the exponent \<open>-1022\<close> and the fixed unit
  \<open>2 powi -1074\<close> below it. Magnitudes beyond the largest finite double do not
  arise from the inputs considered, and \<open>fl\<close> has no infinity for them. The
  arithmetic on whole seconds and milliseconds is that of the integers, which
  the doubles follow below \<open>2 ^ 53\<close>. \<open>Math.round\<close> is applied to the double
  and rounds halves up.
\<close>

definition round_even :: "rat \<Rightarrow> int" where
  "round_even y =
     (let f = \<lfloor>y\<rfloor>; d = y - of_int f
      in if d < 1 / 2 then f else if 1 / 2 < d then f + 1 else if even f then f else f + 1)"

text \<open>\<open>expo x\<close> is the integer \<open>e\<close> with \<open>2 powi e \<le> \<bar>x\<bar> < 2 powi (e + 1)\<close>.\<close>

definition expo :: "rat \<Rightarrow> int" where
  "expo x =
     (case quotient_of \<bar>x\<bar> of (p, q) \<Rightarrow>
        let d = bitlen p - bitlen q in if 2 powi d \<le> \<bar>x\<bar> then d else d - 1)"

definition quantum :: "rat \<Rightarrow> rat" where
  "quantum x = 2 powi (max (expo x - 52) (- 1074))"

definition fl :: "rat \<Rightarrow> rat" where
  "fl x = (if x = 0 then 0 else of_int (round_even (x / quantum x)) * quantum x)"

definition fdiv :: "rat \<Rightarrow> rat \<Rightarrow> rat" where
  "fdiv a b = fl (a / b)"

definition fmul :: "rat \<Rightarrow> rat \<Rightarrow> rat" where
  "fmul a b = fl (a * b)"

definition fsub :: "rat \<Rightarrow> rat \<Rightarrow> rat" where
  "fsub a b = fl (a - b)"

definition Math_round :: "rat \<Rightarrow> int" where
  "Math_round x = \<lfloor>x + 1 / 2\<rfloor>"

text \<open>An argument of type \<open>number\<close> that may be any double.\<close>

datatype number = NaN | NegInf | Num rat | PosInf

definition repeat :: "jsstring \<Rightarrow> nat \<Rightarrow> jsstring" where
  "repeat s n = concat (replicate n s)"

definition join :: "jsstring \<Rightarrow> jsstring list \<Rightarrow> jsstring" where
  "join sep parts = (case parts of [] \<Rightarrow> [] | p # ps \<Rightarrow> p @ concat (map (\<lambda>q. sep @ q) ps))"

definition padStart :: "jsstring \<Rightarrow> nat \<Rightarrow> jschar \<Rightarrow> jsstring" where
  "padStart s w c = replicate (w - length s) c @ s"

definition padEnd :: "jsstring \<Rightarrow> nat \<Rightarrow> jschar \<Rightarrow> jsstring" where
  "padEnd s w c = s @ replicate (w - length s) c"

section \<open>types.ts\<close>

record TableRowData =
  provider :: jsstring
  account :: jsstring
  plan :: jsstring
  used :: jsstring
  remaining :: jsstring
  resetIn :: jsstring
  resetDate :: jsstring

text \<open>The optional fields of \<open>QueryResult\<close> are options, \<open>None\<close> an absent field; \<open>output_text\<close> is the field \<open>output\<close>.\<close>

record QueryResult =
  success :: bool
  output_text :: "jsstring option"
  error :: "jsstring option"
  tableRows :: "TableRowData list option"

text \<open>
  \<open>OpenAIAuthData\<close>, \<open>AnthropicAuthData\<close> and \<open>CopilotAuthData\<close> declare the
  same four fields; \<open>expires\<close> is an epoch-millisecond instant.
\<close>

record OAuthData =
  auth_type :: jsstring
  access :: "jsstring option"
  refresh :: "jsstring option"
  expires :: "int option"

type_synonym OpenAIAuthData = OAuthData
type_synonym AnthropicAuthData = OAuthData
type_synonym CopilotAuthData = OAuthData

record MiniMaxAuthData =
  key_type :: jsstring
  key :: "jsstring option"

record AuthData =
  openai :: "OpenAIAuthData option"
  github_copilot :: "CopilotAuthData option"
  minimax_coding_plan :: "MiniMaxAuthData option"
  minimax :: "MiniMaxAuthData option"
  anthropic :: "AnthropicAuthData option"

definition HIGH_USAGE_THRESHOLD :: int where
  "HIGH_USAGE_THRESHOLD = 80"

text \<open>
  The truthiness tests of the code: a string counts when it is present and
  not empty, a number when it is present and not zero (written out where the
  code tests \<open>expires\<close> and the reset times); \<open>a || b\<close> on strings is
  \<open>or_else\<close>.
\<close>

definition truthy_str :: "jsstring option \<Rightarrow> bool" where
  "truthy_str s = (case s of None \<Rightarrow> False | Some v \<Rightarrow> v \<noteq> [])"

definition or_else :: "jsstring option \<Rightarrow> jsstring \<Rightarrow> jsstring" where
  "or_else s d = (case s of None \<Rightarrow> d | Some v \<Rightarrow> if v = [] then d else v)"

section \<open>i18n.ts\<close>

datatype Language = En | Vi

text \<open>
  The message table, with the entries that the modules below read. A template
  that takes a number prints it in decimal.
\<close>

record Translations =
  days :: "int \<Rightarrow> jsstring"
  hours :: "int \<Rightarrow> jsstring"
  minutes :: "int \<Rightarrow> jsstring"
  hourLimit :: "int \<Rightarrow> jsstring"
  dayLimit :: "int \<Rightarrow> jsstring"
  remaining_label :: "int \<Rightarrow> jsstring"
  resetIn_label :: "jsstring \<Rightarrow> jsstring"
  limitReached :: jsstring
  account_label :: jsstring
  unknown :: jsstring
  used_label :: jsstring
  authError :: "jsstring \<Rightarrow> jsstring \<Rightarrow> jsstring"
  apiError :: "int \<Rightarrow> jsstring \<Rightarrow> jsstring"
  tokenExpired :: jsstring
  noAccounts :: jsstring
  queryFailed :: jsstring
  noQuotaData :: jsstring
  openaiTitle :: jsstring
  minimaxTitle :: jsstring
  minimaxApiError :: "int \<Rightarrow> jsstring \<Rightarrow> jsstring"
  minimaxPromptLimit :: jsstring
  minimaxNeedLogin :: jsstring
  anthropicTitle :: jsstring
  anthropic5HourUsage :: jsstring
  anthropic7DayUsage :: jsstring
  copilotTitle :: jsstring
  tableTitle :: jsstring
  tableHeader :: TableRowData

definition translations_en :: Translations where
  "translations_en = \<lparr>
     days = (\<lambda>n. show_int n @ ascii ''d''),
     hours = (\<lambda>n. show_int n @ ascii ''h''),
     minutes = (\<lambda>n. show_int n @ ascii ''m''),
     hourLimit = (\<lambda>n. show_int n @ ascii ''-hour limit''),
     dayLimit = (\<lambda>n. show_int n @ ascii ''-day limit''),
     remaining_label = (\<lambda>n. show_int n @ ascii ''% remaining''),
     resetIn_label = (\<lambda>s. s),
     limitReached = [0x26A0, 0xFE0F] @ ascii '' Rate limit reached!'',
     account_label = ascii ''Account:'',
     unknown = ascii ''unknown'',
     used_label = ascii ''Used'',
     authError = (\<lambda>p e. [0x274C] @ ascii '' Failed to read auth file: '' @ p @ [0xA] @
       ascii ''Error: '' @ e),
     apiError = (\<lambda>n s. ascii ''OpenAI API request failed ('' @ show_int n @
       ascii ''): '' @ s),
     tokenExpired = [0x26A0, 0xFE0F] @
       ascii '' OAuth token expired. Please use an OpenAI model in OpenCode to refresh authorization.'',
     noAccounts = ascii ''No configured accounts found.'' @ [0xA, 0xA] @
       ascii ''Supported account types:'' @ [0xA] @
       ascii ''- OpenAI (Plus/Team/Pro subscribers)'' @ [0xA] @
       ascii ''- MiniMax (Coding Plan)'' @ [0xA] @ ascii ''- Anthropic (Claude API)'' @
       [0xA] @ ascii ''- GitHub Copilot'',
     queryFailed = [0x274C] @ ascii '' Failed to query accounts:'' @ [0xA],
     noQuotaData = ascii ''No quota data available'',
     openaiTitle = ascii ''## OpenAI Account Quota'',
     minimaxTitle = ascii ''## MiniMax Account Quota'',
     minimaxApiError = (\<lambda>n s. ascii ''MiniMax API request failed ('' @ show_int n @
       ascii ''): '' @ s),
     minimaxPromptLimit = ascii ''5-hour prompt limit'',
     minimaxNeedLogin = [0x26A0, 0xFE0F] @
       ascii '' MiniMax session expired or not logged in.'' @ [0xA] @
       ascii ''Browser will open automatically for you to login.'' @ [0xA] @
       ascii ''After login, close the browser and session will be saved automatically.'',
     anthropicTitle = ascii ''## Anthropic Account Quota'',
     anthropic5HourUsage = ascii ''5-hour window (Session)'',
     anthropic7DayUsage = ascii ''7-day window (Weekly)'',
     copilotTitle = ascii ''## GitHub Copilot Account Quota'',
     tableTitle = ascii ''## AI Provider Quota Status'',
     tableHeader =
       \<lparr>provider = ascii ''Provider'',
          account = ascii ''Account'',
          plan = ascii ''Plan'',
          used = ascii ''Used'',
          remaining = ascii ''Remaining'',
          resetIn = ascii ''Reset In'',
          resetDate = ascii ''Reset Date''\<rparr>\<rparr>"

definition translations_vi :: Translations where
  "translations_vi = \<lparr>
     days = (\<lambda>n. show_int n @ ascii ''ng'' @ [0xE0] @ ascii ''y''),
     hours = (\<lambda>n. show_int n @ ascii ''gi'' @ [0x1EDD]),
     minutes = (\<lambda>n. show_int n @ ascii ''ph'' @ [0xFA] @ ascii ''t''),
     hourLimit = (\<lambda>n. ascii ''Gi'' @ [0x1EDB] @ ascii ''i h'' @ [0x1EA1] @
       ascii ''n '' @ show_int n @ ascii '' gi'' @ [0x1EDD]),
     dayLimit = (\<lambda>n. ascii ''Gi'' @ [0x1EDB] @ ascii ''i h'' @ [0x1EA1] @
       ascii ''n '' @ show_int n @ ascii '' ng'' @ [0xE0] @ ascii ''y''),
     remaining_label = (\<lambda>n. ascii ''C'' @ [0xF2] @ ascii ''n l'' @ [0x1EA1] @
       ascii ''i '' @ show_int n @ ascii ''%''),
     resetIn_label = (\<lambda>s. s),
     limitReached = [0x26A0, 0xFE0F] @ ascii '' '' @ [0x110, 0xE3] @ ascii '' '' @
       [0x111, 0x1EA1] @ ascii ''t Gi'' @ [0x1EDB] @ ascii ''i h'' @ [0x1EA1] @ ascii ''n!'',
     account_label = ascii ''T'' @ [0xE0] @ ascii ''i kho'' @ [0x1EA3] @ ascii ''n:'',
     unknown = ascii ''Kh'' @ [0xF4] @ ascii ''ng x'' @ [0xE1] @ ascii ''c '' @
       [0x111, 0x1ECB] @ ascii ''nh'',
     used_label = [0x110, 0xE3] @ ascii '' d'' @ [0xF9] @ ascii ''ng'',
     authError = (\<lambda>p e. [0x274C] @ ascii '' Kh'' @ [0xF4] @ ascii ''ng '' @
       [0x111, 0x1ECD] @ ascii ''c '' @ [0x111, 0x1B0, 0x1EE3] @ ascii ''c file auth: '' @ p @
       [0xA] @ ascii ''L'' @ [0x1ED7] @ ascii ''i: '' @ e),
     apiError = (\<lambda>n s. ascii ''Y'' @ [0xEA] @ ascii ''u c'' @ [0x1EA7] @
       ascii ''u OpenAI API th'' @ [0x1EA5] @ ascii ''t b'' @ [0x1EA1] @ ascii ''i ('' @
       show_int n @ ascii ''): '' @ s),
     tokenExpired = [0x26A0, 0xFE0F] @ ascii '' Token OAuth '' @ [0x111, 0xE3] @
       ascii '' h'' @ [0x1EBF] @ ascii ''t h'' @ [0x1EA1] @ ascii ''n. Vui l'' @ [0xF2] @
       ascii ''ng s'' @ [0x1EED] @ ascii '' d'' @ [0x1EE5] @ ascii ''ng m'' @ [0x1ED9] @
       ascii ''t m'' @ [0xF4] @ ascii '' h'' @ [0xEC] @ ascii ''nh OpenAI trong OpenCode '' @
       [0x111, 0x1EC3] @ ascii '' l'' @ [0xE0] @ ascii ''m m'' @ [0x1EDB] @ ascii ''i quy'' @
       [0x1EC1] @ ascii ''n truy c'' @ [0x1EAD] @ ascii ''p.'',
     noAccounts = ascii ''Kh'' @ [0xF4] @ ascii ''ng t'' @ [0xEC] @ ascii ''m th'' @
       [0x1EA5] @ ascii ''y t'' @ [0xE0] @ ascii ''i kho'' @ [0x1EA3] @ ascii ''n n'' @
       [0xE0] @ ascii ''o '' @ [0x111, 0xE3] @ ascii '' c'' @ [0x1EA5] @ ascii ''u h'' @
       [0xEC] @ ascii ''nh.'' @ [0xA, 0xA] @ ascii ''C'' @ [0xE1] @ ascii ''c lo'' @
       [0x1EA1] @ ascii ''i t'' @ [0xE0] @ ascii ''i kho'' @ [0x1EA3] @ ascii ''n '' @
       [0x111, 0x1B0, 0x1EE3] @ ascii ''c h'' @ [0x1ED7] @ ascii '' tr'' @ [0x1EE3] @
       ascii '':'' @ [0xA] @ ascii ''- OpenAI (Plus/Team/Pro)'' @ [0xA] @
       ascii ''- MiniMax (Coding Plan)'' @ [0xA] @ ascii ''- Anthropic (Claude API)'' @
       [0xA] @ ascii ''- GitHub Copilot'',
     queryFailed = [0x274C] @ ascii '' C'' @ [0xE1] @ ascii ''c t'' @ [0xE0] @
       ascii ''i kho'' @ [0x1EA3] @ ascii ''n truy v'' @ [0x1EA5] @ ascii ''n th'' @
       [0x1EA5] @ ascii ''t b'' @ [0x1EA1] @ ascii ''i:'' @ [0xA],
     noQuotaData = ascii ''Kh'' @ [0xF4] @ ascii ''ng c'' @ [0xF3] @ ascii '' d'' @ [0x1EEF] @
       ascii '' li'' @ [0x1EC7] @ ascii ''u h'' @ [0x1EA1] @ ascii ''n m'' @ [0x1EE9] @
       ascii ''c'',
     openaiTitle = ascii ''## H'' @ [0x1EA1] @ ascii ''n m'' @ [0x1EE9] @ ascii ''c t'' @
       [0xE0] @ ascii ''i kho'' @ [0x1EA3] @ ascii ''n OpenAI'',
     minimaxTitle = ascii ''## H'' @ [0x1EA1] @ ascii ''n m'' @ [0x1EE9] @ ascii ''c t'' @
       [0xE0] @ ascii ''i kho'' @ [0x1EA3] @ ascii ''n MiniMax'',
     minimaxApiError = (\<lambda>n s. ascii ''Y'' @ [0xEA] @ ascii ''u c'' @ [0x1EA7] @
       ascii ''u MiniMax API th'' @ [0x1EA5] @ ascii ''t b'' @ [0x1EA1] @ ascii ''i ('' @
       show_int n @ ascii ''): '' @ s),
     minimaxPromptLimit = ascii ''Gi'' @ [0x1EDB] @ ascii ''i h'' @ [0x1EA1] @
       ascii ''n prompt 5 gi'' @ [0x1EDD],
     minimaxNeedLogin = [0x26A0, 0xFE0F] @ ascii '' Session MiniMax '' @ [0x111, 0xE3] @
       ascii '' h'' @ [0x1EBF] @ ascii ''t h'' @ [0x1EA1] @ ascii ''n ho'' @ [0x1EB7] @
       ascii ''c ch'' @ [0x1B0] @ ascii ''a '' @ [0x111, 0x103] @ ascii ''ng nh'' @ [0x1EAD] @
       ascii ''p.'' @ [0xA] @ ascii ''Tr'' @ [0xEC] @ ascii ''nh duy'' @ [0x1EC7] @
       ascii ''t s'' @ [0x1EBD] @ ascii '' t'' @ [0x1EF1] @ ascii '' '' @ [0x111, 0x1ED9] @
       ascii ''ng m'' @ [0x1EDF] @ ascii '' '' @ [0x111, 0x1EC3] @ ascii '' b'' @ [0x1EA1] @
       ascii ''n '' @ [0x111, 0x103] @ ascii ''ng nh'' @ [0x1EAD] @ ascii ''p.'' @ [0xA] @
       ascii ''Sau khi '' @ [0x111, 0x103] @ ascii ''ng nh'' @ [0x1EAD] @ ascii ''p, '' @
       [0x111, 0xF3] @ ascii ''ng tr'' @ [0xEC] @ ascii ''nh duy'' @ [0x1EC7] @
       ascii ''t v'' @ [0xE0] @ ascii '' session s'' @ [0x1EBD] @ ascii '' '' @
       [0x111, 0x1B0, 0x1EE3] @ ascii ''c l'' @ [0x1B0] @ ascii ''u t'' @ [0x1EF1] @
       ascii '' '' @ [0x111, 0x1ED9] @ ascii ''ng.'',
     anthropicTitle = ascii ''## H'' @ [0x1EA1] @ ascii ''n m'' @ [0x1EE9] @ ascii ''c t'' @
       [0xE0] @ ascii ''i kho'' @ [0x1EA3] @ ascii ''n Anthropic'',
     anthropic5HourUsage = ascii ''C'' @ [0x1EED] @ ascii ''a s'' @ [0x1ED5] @
       ascii '' 5 gi'' @ [0x1EDD] @ ascii '' (Session)'',
     anthropic7DayUsage = ascii ''C'' @ [0x1EED] @ ascii ''a s'' @ [0x1ED5] @
       ascii '' 7 ng'' @ [0xE0] @ ascii ''y (Weekly)'',
     copilotTitle = ascii ''## H'' @ [0x1EA1] @ ascii ''n m'' @ [0x1EE9] @ ascii ''c t'' @
       [0xE0] @ ascii ''i kho'' @ [0x1EA3] @ ascii ''n GitHub Copilot'',
     tableTitle = ascii ''## Tr'' @ [0x1EA1] @ ascii ''ng th'' @ [0xE1] @ ascii ''i h'' @
       [0x1EA1] @ ascii ''n m'' @ [0x1EE9] @ ascii ''c nh'' @ [0xE0] @ ascii '' cung c'' @
       [0x1EA5] @ ascii ''p AI'',
     tableHeader =
       \<lparr>provider = ascii ''Nh'' @ [0xE0] @ ascii '' cung c'' @ [0x1EA5] @ ascii ''p'',
          account = ascii ''T'' @ [0xE0] @ ascii ''i kho'' @ [0x1EA3] @ ascii ''n'',
          plan = ascii ''G'' @ [0xF3] @ ascii ''i'',
          used = [0x110, 0xE3] @ ascii '' d'' @ [0xF9] @ ascii ''ng'',
          remaining = ascii ''C'' @ [0xF2] @ ascii ''n l'' @ [0x1EA1] @ ascii ''i'',
          resetIn = ascii ''Th'' @ [0x1EDD] @ ascii ''i gian reset'',
          resetDate = ascii ''Ng'' @ [0xE0] @ ascii ''y reset''\<rparr>\<rparr>"

fun translations_of :: "Language \<Rightarrow> Translations" where
  "translations_of En = translations_en"
| "translations_of Vi = translations_vi"

section \<open>The host: language, calendar and clock\<close>

text \<open>
  \<open>currentLang\<close> is detected once when the module is loaded. \<open>localTime\<close>
  gives the calendar fields of an instant in the time zone of the process, as
  the getters of \<open>Date\<close> do (\<open>getMonth\<close> counts from 0); an instant beyond
  8.64e15 ms is no date, and its fields print as \<open>NaN\<close>.

  Every call of \<open>Date.now()\<close> is a reading of its own: a function that reads
  the clock takes the value of each of its readings as an argument, and
  nothing relates two readings.
\<close>

record DateParts =
  getDate :: int
  getMonth :: int
  getFullYear :: int
  getHours :: int
  getMinutes :: int
  getSeconds :: int

record host =
  currentLang :: Language
  localTime :: "int \<Rightarrow> DateParts"

definition valid_date :: "int \<Rightarrow> bool" where
  "valid_date ms \<longleftrightarrow> \<bar>ms\<bar> \<le> 8640000000000000"

text \<open>
  The readings of one window of a table row: at the test that the reset lies
  in the future, inside \<open>formatResetTime(reset, true)\<close>, and inside
  \<open>formatResetTime(reset)\<close>. The readings of one window of the legacy text:
  at the test, and inside \<open>formatResetTime(reset)\<close>.
\<close>

record row_clock =
  guard_now :: int
  date_now :: int
  full_now :: int

record text_clock =
  test_now :: int
  text_now :: int

text \<open>
  The readings of a query of each provider: for OpenAI the test of \<open>expires\<close>,
  the \<open>now\<close> of \<open>extractTableRow\<close> and the reading inside its
  \<open>formatResetTime\<close>; for Anthropic the test of \<open>expires\<close> and the two
  windows of the rows and of the text; for MiniMax the row and the text.
\<close>

record openai_clock =
  expiry_now :: int
  row_now :: int
  format_now :: int

record anthropic_clock =
  refresh_now :: int
  five_row :: row_clock
  seven_row :: row_clock
  five_text :: text_clock
  seven_text :: text_clock

record minimax_clock =
  mm_row :: row_clock
  mm_text :: text_clock

definition t :: "'a host_scheme \<Rightarrow> Translations" where
  "t h = translations_of (currentLang h)"

section \<open>utils.ts\<close>

text \<open>The remainder operator on integers takes the sign of the dividend.\<close>

definition js_rem :: "int \<Rightarrow> int \<Rightarrow> int" where
  "js_rem a b = sgn a * (\<bar>a\<bar> mod \<bar>b\<bar>)"

definition formatDuration :: "'a host_scheme \<Rightarrow> int \<Rightarrow> jsstring" where
  "formatDuration h seconds =
     (let nd = seconds div 86400;
          nh = js_rem seconds 86400 div 3600;
          nm = js_rem seconds 3600 div 60;
          parts1 = (if nd > 0 then [days (t h) nd] else []);
          parts2 = parts1 @ (if nh > 0 then [hours (t h) nh] else []);
          parts3 = parts2 @ (if nm > 0 \<or> parts2 = [] then [minutes (t h) nm] else [])
      in join (if currentLang h = En then ascii '' '' else []) parts3)"

definition pad2 :: "int \<Rightarrow> jsstring" where
  "pad2 n = padStart (show_int n) 2 0x30"

text \<open>\<open>formatResetTime\<close>, with \<open>now\<close> the reading of its \<open>Date.now()\<close>.\<close>

definition date_field :: "int \<Rightarrow> jsstring \<Rightarrow> jsstring" where
  "date_field ms s = (if valid_date ms then s else ascii ''NaN'')"

definition formatResetTime :: "'a host_scheme \<Rightarrow> int \<Rightarrow> int \<Rightarrow> bool \<Rightarrow> jsstring" where
  "formatResetTime h now resetTimestamp dateOnly =
     (let diffMs = resetTimestamp - now
      in if diffMs \<le> 0 then ascii ''Resets now''
         else
           let diffSeconds = diffMs div 1000;
               exactDate = localTime h resetTimestamp;
               day = date_field resetTimestamp (pad2 (getDate exactDate));
               month = date_field resetTimestamp (pad2 (getMonth exactDate + 1));
               year = date_field resetTimestamp (show_int (getFullYear exactDate));
               hrs = date_field resetTimestamp (pad2 (getHours exactDate));
               mins = date_field resetTimestamp (pad2 (getMinutes exactDate));
               secs = date_field resetTimestamp (pad2 (getSeconds exactDate))
           in if dateOnly
              then hrs @ ascii '':'' @ mins @ ascii '' - '' @ day @ ascii ''/'' @ month @
                   ascii ''/'' @ year
              else
                let exactTime = ascii ''at '' @ hrs @ ascii '':'' @ mins @ ascii '':'' @ secs @
                                ascii '' '' @ day @ ascii ''/'' @ month @ ascii ''/'' @ year;
                    relativeTime = formatDuration h diffSeconds
                in ascii ''Resets in: '' @ relativeTime @ ascii '' ('' @ exactTime @ ascii '')'')"

definition filledChar :: jschar where
  "filledChar = 0x2588"

definition emptyChar :: jschar where
  "emptyChar = 0x2591"

text \<open>
  \<open>createProgressBar(remainPercent, width = 30)\<close>. The width is a character
  count, a natural number. \<open>Math.min\<close> and \<open>Math.max\<close> clamp an infinity and
  let \<open>NaN\<close> through; with \<open>NaN\<close> both counts are \<open>NaN\<close>, which \<open>repeat\<close>
  takes as 0.
\<close>

definition safePercent :: "number \<Rightarrow> rat option" where
  "safePercent remainPercent =
     (case remainPercent of
        NaN \<Rightarrow> None
      | NegInf \<Rightarrow> Some 0
      | Num r \<Rightarrow> Some (max 0 (min 100 r))
      | PosInf \<Rightarrow> Some 100)"

definition createProgressBar :: "number \<Rightarrow> nat \<Rightarrow> jsstring" where
  "createProgressBar remainPercent width =
     (case safePercent remainPercent of
        None \<Rightarrow> []
      | Some sp \<Rightarrow>
          let filled = Math_round (fmul (fdiv sp 100) (of_nat width));
              empty = int width - filled
          in repeat [filledChar] (nat filled) @ repeat [emptyChar] (nat empty))"

definition calcRemainPercent :: "rat \<Rightarrow> int" where
  "calcRemainPercent usedPercent = Math_round (fsub 100 usedPercent)"

text \<open>
  \<open>maskString(str, showChars = 4)\<close>. \<open>str.slice(-showChars)\<close> is the last
  \<open>showChars\<close> code units, and the whole string when \<open>showChars\<close> is 0.
\<close>

definition maskString :: "jsstring \<Rightarrow> nat \<Rightarrow> jsstring" where
  "maskString str showChars =
     (if length str \<le> showChars * 2 then str
      else take showChars str @ ascii ''****'' @
           (if showChars = 0 then str else drop (length str - showChars) str))"

section \<open>extractCountdown (anthropic.ts and minimax.ts, the same text in both)\<close>

text \<open>
  \<open>fullString.match(/Resets in:\s*(.+?)\s*\(/)\<close>, by the backtracking order
  of the pattern. \<open>\s\<close> is white space or a line terminator; \<open>.\<close> is any code
  unit but a line terminator.
\<close>

definition is_space :: "jschar \<Rightarrow> bool" where
  "is_space c \<longleftrightarrow>
     c \<in> set [0x9, 0xA, 0xB, 0xC, 0xD, 0x20, 0xA0, 0x1680, 0x2000, 0x2001, 0x2002, 0x2003,
              0x2004, 0x2005, 0x2006, 0x2007, 0x2008, 0x2009, 0x200A, 0x2028, 0x2029,
              0x202F, 0x205F, 0x3000, 0xFEFF]"

definition is_line_terminator :: "jschar \<Rightarrow> bool" where
  "is_line_terminator c \<longleftrightarrow> c \<in> set [0xA, 0xD, 0x2028, 0x2029]"

text \<open>
  The end of the pattern, \<open>\s*\(\<close>, at the head of \<open>s\<close>. The parenthesis is
  not white space, so of all the lengths that the greedy \<open>\s*\<close> may give back
  only the whole run of white space can be followed by it.
\<close>

definition rest_matches :: "jsstring \<Rightarrow> bool" where
  "rest_matches s = (case dropWhile is_space s of [] \<Rightarrow> False | c # _ \<Rightarrow> c = 0x28)"

text \<open>
  The lazy group \<open>(.+?)\<close> has taken \<open>acc\<close>: it stops as soon as the end of the
  pattern matches, and takes one more code unit otherwise.
\<close>

fun lazy_group :: "jsstring \<Rightarrow> jsstring \<Rightarrow> jsstring option" where
  "lazy_group acc [] = (if rest_matches [] then Some acc else None)"
| "lazy_group acc (c # cs) =
     (if rest_matches (c # cs) then Some acc
      else if is_line_terminator c then None
      else lazy_group (acc @ [c]) cs)"

definition group_from :: "jsstring \<Rightarrow> jsstring option" where
  "group_from s =
     (case s of [] \<Rightarrow> None
      | c # cs \<Rightarrow> if is_line_terminator c then None else lazy_group [c] cs)"

text \<open>
  The greedy \<open>\s*\<close> after the colon takes \<open>k\<close> code units of white space, the
  whole run first, and gives them back one at a time while the rest fails.
\<close>

fun greedy_space :: "nat \<Rightarrow> jsstring \<Rightarrow> jsstring option" where
  "greedy_space 0 s = group_from s"
| "greedy_space (Suc k) s =
     (case group_from (drop (Suc k) s) of
        Some g \<Rightarrow> Some g
      | None \<Rightarrow> greedy_space k s)"

fun strip_prefix :: "jsstring \<Rightarrow> jsstring \<Rightarrow> jsstring option" where
  "strip_prefix [] s = Some s"
| "strip_prefix (p # ps) [] = None"
| "strip_prefix (p # ps) (c # cs) = (if p = c then strip_prefix ps cs else None)"

definition match_here :: "jsstring \<Rightarrow> jsstring option" where
  "match_here s =
     (case strip_prefix (ascii ''Resets in:'') s of
        None \<Rightarrow> None
      | Some r \<Rightarrow> greedy_space (length (takeWhile is_space r)) r)"

text \<open>The search tries the start positions from left to right.\<close>

fun match_from :: "jsstring \<Rightarrow> jsstring option" where
  "match_from [] = match_here []"
| "match_from (c # cs) =
     (case match_here (c # cs) of Some g \<Rightarrow> Some g | None \<Rightarrow> match_from cs)"

definition trim :: "jsstring \<Rightarrow> jsstring" where
  "trim s = rev (dropWhile is_space (rev (dropWhile is_space s)))"

definition extractCountdown :: "jsstring \<Rightarrow> jsstring" where
  "extractCountdown fullString =
     (case match_from fullString of Some g \<Rightarrow> trim g | None \<Rightarrow> fullString)"



section \<open>The responses of the providers\<close>

record RateLimitWindow =
  used_percent :: int
  limit_window_seconds :: int
  reset_after_seconds :: int

record RateLimit =
  limit_reached :: bool
  primary_window :: "RateLimitWindow option"
  secondary_window :: "RateLimitWindow option"

record OpenAIUsageResponse =
  plan_type :: jsstring
  rate_limit :: "RateLimit option"

text \<open>
  The claims of the token payload that the OpenAI module reads: the email of
  the profile object and the account id of the auth object.
\<close>

record JwtPayload =
  profile_email :: "jsstring option"
  auth_chatgpt_account_id :: "jsstring option"

record UsageWindow =
  utilization :: rat
  resets_at :: jsstring

record ClaudeUsageResponse =
  five_hour :: "UsageWindow option"
  seven_day :: "UsageWindow option"
  seven_day_sonnet :: "rat option"

record MiniMaxModelRemain =
  start_time :: int
  end_time :: int
  remains_time :: int
  current_interval_total_count :: int
  current_interval_usage_count :: int
  model_name :: jsstring

record BaseResp =
  status_code :: int
  status_msg :: jsstring

record MiniMaxData =
  plan_name :: "jsstring option"
  total_prompts :: "int option"
  used_prompts :: "int option"
  remaining_prompts :: "int option"
  next_reset_time :: "int option"
  usage_percentage :: "rat option"

record MiniMaxRemainsResponse =
  base_resp :: BaseResp
  model_remains :: "MiniMaxModelRemain list option"
  data :: "MiniMaxData option"

section \<open>The network and the platform\<close>

text \<open>
  A request either fails in transport (\<open>fetchWithTimeout\<close> throws, with a
  message) or is answered with a status, the text of the body and what
  \<open>response.json()\<close> gives: the message of its exception, or the value.
  Every request that a query makes is recorded, in order, so that a result
  says which calls were made for it.
\<close>

datatype 'a fetched = Rejected jsstring | Responded int jsstring "jsstring + 'a"

definition ok :: "int \<Rightarrow> bool" where
  "ok status \<longleftrightarrow> 200 \<le> status \<and> status \<le> 299"

datatype call =
  OpenAI_usage_call jsstring "jsstring option"
| Anthropic_refresh_call jsstring
| Claude_usage_call jsstring
| MiniMax_curl_call jsstring

text \<open>
  What the modules take from outside: \<open>decodePayload\<close> is the base64url
  decoding and \<open>JSON.parse\<close> of a token segment (\<open>None\<close> when either throws or
  the value is no object); \<open>parseDate\<close> is \<open>new Date(s).getTime()\<close> (\<open>None\<close> for
  an invalid date); the three \<open>fetch\<close> fields answer the requests, the usage
  endpoint of Anthropic with a value that may be \<open>null\<close>; \<open>execCurl\<close> runs the
  command, and gives the message of its failure or the standard output with
  its parse (\<open>None\<close> for a syntax error); \<open>readAuth\<close> reads and parses the
  credential file at \<open>authPath\<close>. The module \<open>lib/copilot.ts\<close> is not among the
  sources: \<open>queryCopilotUsage\<close> stands for it. The last three fields are the
  readings of the clock that the query of each provider gets.
\<close>

record world = host +
  decodePayload :: "jsstring \<Rightarrow> JwtPayload option"
  parseDate :: "jsstring \<Rightarrow> int option"
  fetchOpenAI :: "jsstring \<Rightarrow> jsstring option \<Rightarrow> OpenAIUsageResponse fetched"
  fetchRefresh :: "jsstring \<Rightarrow> jsstring option fetched"
  fetchClaude :: "jsstring \<Rightarrow> ClaudeUsageResponse option fetched"
  execCurl :: "jsstring \<Rightarrow> jsstring + jsstring \<times> MiniMaxRemainsResponse option"
  authPath :: jsstring
  readAuth :: "jsstring + AuthData"
  queryCopilotUsage :: "CopilotAuthData option \<Rightarrow> QueryResult option"
  openai_time :: openai_clock
  anthropic_time :: anthropic_clock
  minimax_time :: minimax_clock

definition failure :: "jsstring \<Rightarrow> QueryResult" where
  "failure msg = \<lparr>success = False, output_text = None, error = Some msg, tableRows = None\<rparr>"

definition succeeded :: "jsstring \<Rightarrow> TableRowData list \<Rightarrow> QueryResult" where
  "succeeded out rows =
     \<lparr>success = True, output_text = Some out, error = None, tableRows = Some rows\<rparr>"

definition dash :: jsstring where
  "dash = ascii ''-''"

definition newline :: jsstring where
  "newline = [0xA]"

section \<open>openai.ts\<close>

fun split_on :: "jschar \<Rightarrow> jsstring \<Rightarrow> jsstring list" where
  "split_on sep [] = [[]]"
| "split_on sep (c # cs) =
     (if c = sep then [] # split_on sep cs
      else (case split_on sep cs of [] \<Rightarrow> [[c]] | p # ps \<Rightarrow> (c # p) # ps))"

definition parseJwt :: "'a world_scheme \<Rightarrow> jsstring \<Rightarrow> JwtPayload option" where
  "parseJwt w token =
     (case split_on 0x2E token of
        [p0, p1, p2] \<Rightarrow> decodePayload w p1
      | _ \<Rightarrow> None)"

definition getEmailFromJwt :: "'a world_scheme \<Rightarrow> jsstring \<Rightarrow> jsstring option" where
  "getEmailFromJwt w token =
     (case parseJwt w token of None \<Rightarrow> None | Some payload \<Rightarrow> profile_email payload)"

definition getAccountIdFromJwt :: "'a world_scheme \<Rightarrow> jsstring \<Rightarrow> jsstring option" where
  "getAccountIdFromJwt w token =
     (case parseJwt w token of None \<Rightarrow> None | Some payload \<Rightarrow> auth_chatgpt_account_id payload)"

definition formatWindowName :: "'a host_scheme \<Rightarrow> int \<Rightarrow> jsstring" where
  "formatWindowName h seconds =
     (let nd = Math_round (fdiv (of_int seconds) 86400)
      in if nd \<ge> 1 then dayLimit (t h) nd
         else hourLimit (t h) (Math_round (fdiv (of_int seconds) 3600)))"

definition formatWindow :: "'a host_scheme \<Rightarrow> RateLimitWindow \<Rightarrow> jsstring list" where
  "formatWindow h window =
     (let windowName = formatWindowName h (limit_window_seconds window);
          remainPercent = calcRemainPercent (of_int (used_percent window));
          progressBar = createProgressBar (Num (of_int remainPercent)) 30;
          resetTime = formatDuration h (reset_after_seconds window)
      in [windowName,
          progressBar @ ascii '' '' @ remaining_label (t h) remainPercent,
          resetIn_label (t h) resetTime])"

definition fetchOpenAIUsage ::
  "'a world_scheme \<Rightarrow> jsstring \<Rightarrow> call list \<times> (jsstring + OpenAIUsageResponse)" where
  "fetchOpenAIUsage w accessToken =
     (let accountId = getAccountIdFromJwt w accessToken;
          hdr = (if truthy_str accountId then accountId else None)
      in ([OpenAI_usage_call accessToken hdr],
          (case fetchOpenAI w accessToken hdr of
             Rejected msg \<Rightarrow> Inl msg
           | Responded status errorText body \<Rightarrow>
               if \<not> ok status then Inl (apiError (t w) status errorText) else body)))"

definition formatOpenAIUsage ::
  "'a host_scheme \<Rightarrow> OpenAIUsageResponse \<Rightarrow> jsstring option \<Rightarrow> jsstring" where
  "formatOpenAIUsage h resp email =
     (let accountDisplay = or_else email (unknown (t h));
          lines0 = [account_label (t h) @ ascii ''        '' @ accountDisplay @ ascii '' ('' @
                    plan_type resp @ ascii '')'', []];
          primary = (case rate_limit resp of None \<Rightarrow> None | Some rl \<Rightarrow> primary_window rl);
          secondary = (case rate_limit resp of None \<Rightarrow> None | Some rl \<Rightarrow> secondary_window rl);
          reached = (case rate_limit resp of None \<Rightarrow> False | Some rl \<Rightarrow> limit_reached rl);
          lines1 = lines0 @ (case primary of None \<Rightarrow> [] | Some pw \<Rightarrow> formatWindow h pw);
          lines2 = lines1 @ (case secondary of None \<Rightarrow> [] | Some sw \<Rightarrow> [] # formatWindow h sw);
          lines3 = lines2 @ (if reached then [[], limitReached (t h)] else [])
      in join newline lines3)"

text \<open>
  \<open>extractTableRow\<close>: \<open>now\<close> is its own reading and \<open>fnow\<close> the reading inside
  \<open>formatResetTime\<close>. \<open>new Date(v)\<close> has the time \<open>NaN\<close> when \<open>v\<close> is no date,
  and no comparison holds of \<open>NaN\<close>.
\<close>

definition openai_extractTableRow ::
  "'a host_scheme \<Rightarrow> int \<Rightarrow> int \<Rightarrow> OpenAIUsageResponse \<Rightarrow> jsstring option \<Rightarrow>
   TableRowData option" where
  "openai_extractTableRow h now fnow resp email =
     (case (case rate_limit resp of None \<Rightarrow> None | Some rl \<Rightarrow> primary_window rl) of
        None \<Rightarrow> None
      | Some primary \<Rightarrow>
          let usedPercent = used_percent primary;
              remainPercent = calcRemainPercent (of_int usedPercent);
              resetAfter = reset_after_seconds primary;
              resetDate = (if resetAfter > 0 then Some (now + resetAfter * 1000) else None);
              resetDateStr =
                (case resetDate of
                   None \<Rightarrow> dash
                 | Some d \<Rightarrow>
                     if valid_date d \<and> d > now then formatResetTime h fnow d True else dash);
              resetIn = (if resetAfter > 0 then formatDuration h resetAfter else dash)
          in Some \<lparr>provider = ascii ''OpenAI'',
                   account = or_else email (unknown (t h)),
                   plan = plan_type resp,
                   used = show_int usedPercent @ ascii ''%'',
                   remaining = show_int remainPercent @ ascii ''%'',
                   resetIn = resetIn,
                   resetDate = resetDateStr\<rparr>)"

definition queryOpenAIUsage ::
  "'a world_scheme \<Rightarrow> OpenAIAuthData option \<Rightarrow> call list \<times> QueryResult option" where
  "queryOpenAIUsage w authData =
     (case authData of
        None \<Rightarrow> ([], None)
      | Some a \<Rightarrow>
          (case access a of
             None \<Rightarrow> ([], None)
           | Some token \<Rightarrow>
               if auth_type a \<noteq> ascii ''oauth'' \<or> token = [] then ([], None)
               else if (case expires a of
                          None \<Rightarrow> False
                        | Some e \<Rightarrow> e \<noteq> 0 \<and> e < expiry_now (openai_time w))
               then ([], Some (failure (tokenExpired (t w))))
               else
                 let email = getEmailFromJwt w token;
                     (calls, fetched) = fetchOpenAIUsage w token
                 in (calls,
                     Some (case fetched of
                             Inl msg \<Rightarrow> failure msg
                           | Inr usage \<Rightarrow>
                               succeeded (formatOpenAIUsage w usage email)
                                 (case openai_extractTableRow w (row_now (openai_time w))
                                         (format_now (openai_time w)) usage email of
                                    None \<Rightarrow> []
                                  | Some tableRow \<Rightarrow> [tableRow])))))"

section \<open>anthropic.ts\<close>

definition refreshAccessToken :: "'a world_scheme \<Rightarrow> jsstring \<Rightarrow> jsstring option" where
  "refreshAccessToken w refreshToken =
     (case fetchRefresh w refreshToken of
        Rejected msg \<Rightarrow> None
      | Responded status body js \<Rightarrow>
          if \<not> ok status then None
          else (case js of
                  Inl msg \<Rightarrow> None
                | Inr access_token \<Rightarrow> if truthy_str access_token then access_token else None))"

definition fetchClaudeUsage :: "'a world_scheme \<Rightarrow> jsstring \<Rightarrow> ClaudeUsageResponse option" where
  "fetchClaudeUsage w accessToken =
     (case fetchClaude w accessToken of
        Rejected msg \<Rightarrow> None
      | Responded status body js \<Rightarrow>
          if \<not> ok status then None
          else (case js of Inl msg \<Rightarrow> None | Inr v \<Rightarrow> v))"

text \<open>
  The reset instant of a window, when the field is not empty, parses, and lies
  strictly after the reading \<open>g\<close> of the clock.
\<close>

definition future_reset :: "'a world_scheme \<Rightarrow> int \<Rightarrow> jsstring \<Rightarrow> int option" where
  "future_reset w g resets =
     (if resets = [] then None
      else (case parseDate w resets of
              None \<Rightarrow> None
            | Some reset \<Rightarrow> if reset > g then Some reset else None))"

text \<open>
  \<open>formatClaudeUsage\<close> and \<open>extractTableRows\<close> treat the five-hour and the
  seven-day window with the same statements, up to the title and the plan
  label: \<open>claude_window_lines\<close> and \<open>claude_window_row\<close> are those statements.
\<close>

definition claude_window_lines ::
  "'a world_scheme \<Rightarrow> text_clock \<Rightarrow> jsstring \<Rightarrow> UsageWindow \<Rightarrow> jsstring list" where
  "claude_window_lines w ck title window =
     (let usedPct = Math_round (utilization window);
          remainPercent = calcRemainPercent (of_int usedPct);
          progressBar = createProgressBar (Num (of_int remainPercent)) 30
      in [title,
          progressBar @ ascii '' '' @ remaining_label (t w) remainPercent,
          used_label (t w) @ ascii '': '' @ show_int usedPct @ ascii ''%''] @
         (case future_reset w (test_now ck) (resets_at window) of
            None \<Rightarrow> []
          | Some reset \<Rightarrow>
              [resetIn_label (t w) (formatResetTime w (text_now ck) reset False)]) @
         (if usedPct \<ge> HIGH_USAGE_THRESHOLD then [limitReached (t w)] else []))"

definition formatClaudeUsage ::
  "'a world_scheme \<Rightarrow> text_clock \<Rightarrow> text_clock \<Rightarrow> ClaudeUsageResponse option \<Rightarrow> jsstring \<Rightarrow>
   jsstring" where
  "formatClaudeUsage w ck5 ck7 resp accessToken =
     (let maskedToken = maskString accessToken 8;
          lines0 = [ascii ''**'' @ account_label (t w) @ ascii ''** Claude.ai ('' @ maskedToken @
                    ascii '')'', []]
      in case resp of
           None \<Rightarrow> join newline (lines0 @ [noQuotaData (t w)])
         | Some d \<Rightarrow>
             let lines1 = lines0 @
                   (case five_hour d of
                      None \<Rightarrow> []
                    | Some fiveHour \<Rightarrow>
                        claude_window_lines w ck5
                          ([0xD83D, 0xDD04] @ ascii '' '' @ anthropic5HourUsage (t w)) fiveHour);
                 lines2 = lines1 @
                   (case seven_day d of
                      None \<Rightarrow> []
                    | Some sevenDay \<Rightarrow>
                        (if length lines1 > 2 then [[]] else []) @
                        claude_window_lines w ck7
                          ([0xD83D, 0xDCC5] @ ascii '' '' @ anthropic7DayUsage (t w)) sevenDay)
             in join newline lines2)"

definition claude_window_row ::
  "'a world_scheme \<Rightarrow> row_clock \<Rightarrow> jsstring \<Rightarrow> jsstring \<Rightarrow> UsageWindow \<Rightarrow> TableRowData" where
  "claude_window_row w ck maskedToken label window =
     (let usedPercent = Math_round (utilization window);
          reset = future_reset w (guard_now ck) (resets_at window);
          resetDate = (case reset of
                         None \<Rightarrow> dash
                       | Some r \<Rightarrow> formatResetTime w (date_now ck) r True);
          resetIn = (case reset of
                       None \<Rightarrow> dash
                     | Some r \<Rightarrow> extractCountdown (formatResetTime w (full_now ck) r False))
      in \<lparr>provider = ascii ''Anthropic'',
          account = maskedToken,
          plan = label,
          used = show_int usedPercent @ ascii ''%'',
          remaining = show_int (calcRemainPercent (of_int usedPercent)) @ ascii ''%'',
          resetIn = resetIn,
          resetDate = resetDate\<rparr>)"

definition anthropic_extractTableRows ::
  "'a world_scheme \<Rightarrow> row_clock \<Rightarrow> row_clock \<Rightarrow> ClaudeUsageResponse option \<Rightarrow> jsstring \<Rightarrow>
   TableRowData list" where
  "anthropic_extractTableRows w ck5 ck7 resp accessToken =
     (case resp of
        None \<Rightarrow> []
      | Some d \<Rightarrow>
          let maskedToken = maskString accessToken 4
          in (case five_hour d of
                None \<Rightarrow> []
              | Some fiveHour \<Rightarrow>
                  [claude_window_row w ck5 maskedToken (ascii ''Claude Pro (5h)'') fiveHour]) @
             (case seven_day d of
                None \<Rightarrow> []
              | Some sevenDay \<Rightarrow>
                  [claude_window_row w ck7 maskedToken (ascii ''Claude Pro (7d)'') sevenDay]))"

definition queryAnthropicUsage ::
  "'a world_scheme \<Rightarrow> AnthropicAuthData option \<Rightarrow> call list \<times> QueryResult option" where
  "queryAnthropicUsage w authData =
     (case authData of
        None \<Rightarrow> ([], None)
      | Some a \<Rightarrow>
          (case access a of
             None \<Rightarrow> ([], None)
           | Some token \<Rightarrow>
               if token = [] then ([], None)
               else
                 let refreshing =
                       (case refresh a of
                          None \<Rightarrow> None
                        | Some r \<Rightarrow>
                            if r \<noteq> [] \<and>
                               (case expires a of
                                  None \<Rightarrow> False
                                | Some e \<Rightarrow> e \<noteq> 0 \<and> e < refresh_now (anthropic_time w))
                            then Some r else None);
                     calls1 = (case refreshing of None \<Rightarrow> [] | Some r \<Rightarrow> [Anthropic_refresh_call r]);
                     accessToken =
                       (case refreshing of
                          None \<Rightarrow> token
                        | Some r \<Rightarrow>
                            (case refreshAccessToken w r of
                               None \<Rightarrow> token
                             | Some newToken \<Rightarrow> newToken));
                     usage = fetchClaudeUsage w accessToken;
                     calls2 = calls1 @ [Claude_usage_call accessToken]
                 in (case usage of
                       None \<Rightarrow>
                         (calls2, Some (failure (ascii ''Anthropic: Failed to fetch usage data'')))
                     | Some u \<Rightarrow>
                         (calls2,
                          Some (succeeded
                                  (formatClaudeUsage w (five_text (anthropic_time w))
                                     (seven_text (anthropic_time w)) usage accessToken)
                                  (anthropic_extractTableRows w (five_row (anthropic_time w))
                                     (seven_row (anthropic_time w)) usage accessToken))))))"

section \<open>minimax.ts\<close>

definition fetchWithCurl :: "'a world_scheme \<Rightarrow> jsstring \<Rightarrow> jsstring + MiniMaxRemainsResponse" where
  "fetchWithCurl w apiKey =
     (case execCurl w apiKey of
        Inl msg \<Rightarrow> Inl msg
      | Inr (stdout, parsed) \<Rightarrow>
          (case parsed of
             None \<Rightarrow>
               Inl (minimaxApiError (t w) 0 (or_else (Some stdout) (ascii ''Invalid response'')))
           | Some d \<Rightarrow>
               if status_code (base_resp d) \<noteq> 0
               then Inl (minimaxApiError (t w) (status_code (base_resp d))
                           (or_else (Some (status_msg (base_resp d))) (ascii ''Unknown error'')))
               else Inr d))"

text \<open>\<open>resp.model_remains?.[0]\<close>: the first entry, when there is one.\<close>

definition first_model :: "MiniMaxRemainsResponse \<Rightarrow> MiniMaxModelRemain option" where
  "first_model resp =
     (case model_remains resp of None \<Rightarrow> None | Some [] \<Rightarrow> None | Some (m # ms) \<Rightarrow> Some m)"

definition planLabel :: "MiniMaxData option \<Rightarrow> jsstring" where
  "planLabel d =
     (case d of
        None \<Rightarrow> ascii ''Coding Plan''
      | Some dd \<Rightarrow>
          if truthy_str (plan_name dd) then ascii ''Coding Plan - '' @ or_else (plan_name dd) []
          else ascii ''Coding Plan'')"

text \<open>\<open>total > 0 ? (used / total) * 100 : 0\<close>, in doubles.\<close>

definition percent_of :: "int \<Rightarrow> int \<Rightarrow> rat" where
  "percent_of usedCount totalCount =
     (if totalCount > 0 then fmul (fdiv (of_int usedCount) (of_int totalCount)) 100 else 0)"

definition formatMiniMaxUsage ::
  "'a host_scheme \<Rightarrow> text_clock \<Rightarrow> MiniMaxRemainsResponse \<Rightarrow> jsstring \<Rightarrow> jsstring" where
  "formatMiniMaxUsage h ck resp apiKey =
     (let maskedKey = maskString apiKey 8
      in case first_model resp of
           Some modelRemains \<Rightarrow>
             let totalCount = current_interval_total_count modelRemains;
                 usedCount = current_interval_usage_count modelRemains;
                 usagePercent = percent_of usedCount totalCount;
                 remainPercent = calcRemainPercent usagePercent;
                 progressBar = createProgressBar (Num (of_int remainPercent)) 30
             in join newline
                  ([ascii ''**'' @ account_label (t h) @ ascii ''** MiniMax ('' @ maskedKey @
                    ascii '') - '' @ model_name modelRemains,
                    [],
                    [0xF0, 0x178, 0x201D, 0x201E] @ ascii '' '' @ minimaxPromptLimit (t h),
                    progressBar @ ascii '' '' @ remaining_label (t h) remainPercent,
                    used_label (t h) @ ascii '': '' @ show_int usedCount @ ascii '' / '' @
                    show_int totalCount @ ascii '' prompts''] @
                   (if end_time modelRemains \<noteq> 0 \<and> end_time modelRemains > test_now ck
                    then [resetIn_label (t h)
                            (formatResetTime h (text_now ck) (end_time modelRemains) False)]
                    else []) @
                   (if usagePercent \<ge> of_int HIGH_USAGE_THRESHOLD then [[], limitReached (t h)]
                    else []))
         | None \<Rightarrow>
             (case data resp of
                Some d \<Rightarrow>
                  let lines0 = [account_label (t h) @ ascii ''        '' @ maskedKey @ ascii '' ('' @
                                planLabel (Some d) @ ascii '')'', []]
                  in if total_prompts d = None \<and> remaining_prompts d = None
                     then join newline (lines0 @ [noQuotaData (t h)])
                     else
                       let totalCount = (case total_prompts d of None \<Rightarrow> 0 | Some n \<Rightarrow> n);
                           usedCount =
                             (case used_prompts d of
                                Some n \<Rightarrow> n
                              | None \<Rightarrow>
                                  totalCount - (case remaining_prompts d of None \<Rightarrow> totalCount | Some n \<Rightarrow> n));
                           usagePercent =
                             (case usage_percentage d of
                                Some p \<Rightarrow> p
                              | None \<Rightarrow> percent_of usedCount totalCount);
                           remainPercent = calcRemainPercent usagePercent;
                           progressBar = createProgressBar (Num (of_int remainPercent)) 30
                       in join newline
                            (lines0 @
                             [minimaxPromptLimit (t h),
                              progressBar @ ascii '' '' @ remaining_label (t h) remainPercent,
                              used_label (t h) @ ascii '': '' @ show_int usedCount @ ascii '' / '' @
                              show_int totalCount @ ascii '' prompts''] @
                             (case next_reset_time d of
                                None \<Rightarrow> []
                              | Some nrt \<Rightarrow>
                                  if nrt \<noteq> 0 \<and> nrt > test_now ck
                                  then [resetIn_label (t h)
                                          (formatResetTime h (text_now ck) nrt False)]
                                  else []) @
                             (if usagePercent \<ge> of_int HIGH_USAGE_THRESHOLD
                              then [[], limitReached (t h)] else []))
              | None \<Rightarrow>
                  join newline
                    [account_label (t h) @ ascii '' MiniMax ('' @ maskedKey @ ascii '')'',
                     [],
                     noQuotaData (t h)]))"

definition minimax_extractTableRow ::
  "'a host_scheme \<Rightarrow> row_clock \<Rightarrow> MiniMaxRemainsResponse \<Rightarrow> jsstring \<Rightarrow>
   TableRowData option" where
  "minimax_extractTableRow h ck resp apiKey =
     (let maskedKey = maskString apiKey 4;
          d = data resp;
          (usedStr, remainingStr, resetInStr, resetDateStr) =
            (case first_model resp of
               Some modelRemains \<Rightarrow>
                 let totalPrompts = current_interval_total_count modelRemains;
                     usedPrompts = current_interval_usage_count modelRemains;
                     usagePercent = percent_of usedPrompts totalPrompts;
                     future =
                       (end_time modelRemains \<noteq> 0 \<and> end_time modelRemains > guard_now ck)
                 in (show_int (Math_round (fsub 100 usagePercent)) @ ascii ''%'',
                     show_int (Math_round usagePercent) @ ascii ''%'',
                     if future
                     then extractCountdown
                            (formatResetTime h (full_now ck) (end_time modelRemains) False)
                     else dash,
                     if future then formatResetTime h (date_now ck) (end_time modelRemains) True
                     else dash)
             | None \<Rightarrow>
                 (case d of
                    Some dd \<Rightarrow>
                      let totalPrompts = (case total_prompts dd of None \<Rightarrow> 0 | Some n \<Rightarrow> n);
                          usedPrompts = (case used_prompts dd of None \<Rightarrow> 0 | Some n \<Rightarrow> n);
                          usagePercent = percent_of usedPrompts totalPrompts;
                          future =
                            (case next_reset_time dd of
                               None \<Rightarrow> None
                             | Some nrt \<Rightarrow>
                                 if nrt \<noteq> 0 \<and> nrt > guard_now ck then Some nrt else None)
                      in (show_int (Math_round (fsub 100 usagePercent)) @ ascii ''%'',
                          show_int (Math_round usagePercent) @ ascii ''%'',
                          (case future of
                             None \<Rightarrow> dash
                           | Some nrt \<Rightarrow>
                               extractCountdown (formatResetTime h (full_now ck) nrt False)),
                          (case future of
                             None \<Rightarrow> dash
                           | Some nrt \<Rightarrow> formatResetTime h (date_now ck) nrt True))
                  | None \<Rightarrow> (dash, dash, dash, dash)))
      in Some \<lparr>provider = ascii ''MiniMax'',
               account = maskedKey,
               plan = planLabel d,
               used = usedStr,
               remaining = remainingStr,
               resetIn = resetInStr,
               resetDate = resetDateStr\<rparr>)"

definition queryMiniMaxUsage ::
  "'a world_scheme \<Rightarrow> MiniMaxAuthData option \<Rightarrow> call list \<times> QueryResult option" where
  "queryMiniMaxUsage w authData =
     (case (case authData of None \<Rightarrow> None | Some a \<Rightarrow> key a) of
        None \<Rightarrow> ([], Some (failure (minimaxNeedLogin (t w))))
      | Some k \<Rightarrow>
          if k = [] then ([], Some (failure (minimaxNeedLogin (t w))))
          else
            ([MiniMax_curl_call k],
             Some (case fetchWithCurl w k of
                     Inl msg \<Rightarrow> failure msg
                   | Inr usage \<Rightarrow>
                       succeeded (formatMiniMaxUsage w (mm_text (minimax_time w)) usage k)
                         (case minimax_extractTableRow w (mm_row (minimax_time w)) usage k of
                            None \<Rightarrow> []
                          | Some tableRow \<Rightarrow> [tableRow]))))"

section \<open>mystatus.ts\<close>

definition colWidth :: "jsstring \<Rightarrow> jsstring list \<Rightarrow> nat" where
  "colWidth hdr cells = fold max (map length cells) (length hdr)"

definition pad :: "jsstring \<Rightarrow> nat \<Rightarrow> jsstring" where
  "pad s w = padEnd s w 0x20"

definition tableLine :: "TableRowData \<Rightarrow> TableRowData \<Rightarrow> TableRowData list \<Rightarrow> jsstring" where
  "tableLine headers r rows =
     ascii ''|'' @ pad (provider r) (colWidth (provider headers) (map provider rows)) @
     ascii ''|'' @ pad (account r) (colWidth (account headers) (map account rows)) @
     ascii ''|'' @ pad (plan r) (colWidth (plan headers) (map plan rows)) @
     ascii ''|'' @ pad (used r) (colWidth (used headers) (map used rows)) @
     ascii ''|'' @ pad (remaining r) (colWidth (remaining headers) (map remaining rows)) @
     ascii ''|'' @ pad (resetIn r) (colWidth (resetIn headers) (map resetIn rows)) @
     ascii ''|'' @ pad (resetDate r) (colWidth (resetDate headers) (map resetDate rows)) @
     ascii ''|''"

definition renderTable :: "'a host_scheme \<Rightarrow> TableRowData list \<Rightarrow> jsstring" where
  "renderTable h rows =
     (let headers = tableHeader (t h);
          headerRow = tableLine headers headers rows;
          separator =
            ascii ''|'' @ repeat (ascii ''-'') (colWidth (provider headers) (map provider rows) + 1) @
            ascii ''|-'' @ repeat (ascii ''-'') (colWidth (account headers) (map account rows) + 1) @
            ascii ''|-'' @ repeat (ascii ''-'') (colWidth (plan headers) (map plan rows) + 1) @
            ascii ''|-'' @ repeat (ascii ''-'') (colWidth (used headers) (map used rows) + 1) @
            ascii ''|-'' @
            repeat (ascii ''-'') (colWidth (remaining headers) (map remaining rows) + 1) @
            ascii ''|-'' @ repeat (ascii ''-'') (colWidth (resetIn headers) (map resetIn rows) + 1) @
            ascii ''|-'' @
            repeat (ascii ''-'') (colWidth (resetDate headers) (map resetDate rows) + 1) @
            ascii ''|'';
          dataRows = map (\<lambda>r. tableLine headers r rows) rows
      in tableTitle (t h) @ newline @ newline @ headerRow @ newline @ separator @ newline @
         join newline dataRows)"

text \<open>
  \<open>collectResult\<close> pushes onto the three arrays of its caller; here it takes
  them and returns them.
\<close>

type_synonym collected = "jsstring list \<times> jsstring list \<times> TableRowData list"

definition collectResult ::
  "QueryResult option \<Rightarrow> jsstring \<Rightarrow> collected \<Rightarrow> collected" where
  "collectResult result title acc =
     (case acc of (results, errors, rows) \<Rightarrow>
        (case result of
           None \<Rightarrow> (results, errors, rows)
         | Some r \<Rightarrow>
             if success r then
               ((if truthy_str (output_text r)
                 then results @ (if length results > 0 then [[]] else []) @
                      [title, [], or_else (output_text r) []]
                 else results),
                errors,
                (case tableRows r of
                   None \<Rightarrow> rows
                 | Some trs \<Rightarrow> if length trs > 0 then rows @ trs else rows))
             else if truthy_str (error r) then (results, errors @ [or_else (error r) []], rows)
             else (results, errors, rows)))"

text \<open>
  The steps of \<open>execute\<close>: the queries of the configured providers with their
  titles, in the order of the code, each with its settled result; the loop over
  them; the output.
\<close>

definition queries :: "'a world_scheme \<Rightarrow> AuthData \<Rightarrow> (jsstring \<times> QueryResult option) list" where
  "queries w authData =
     (case openai authData of
        None \<Rightarrow> []
      | Some a \<Rightarrow> [(openaiTitle (t w), snd (queryOpenAIUsage w (Some a)))]) @
     (if minimax_coding_plan authData \<noteq> None \<or> minimax authData \<noteq> None
      then [(minimaxTitle (t w),
             snd (queryMiniMaxUsage w
                    (case minimax_coding_plan authData of
                       Some m \<Rightarrow> Some m
                     | None \<Rightarrow> minimax authData)))]
      else []) @
     (case github_copilot authData of
        None \<Rightarrow> []
      | Some a \<Rightarrow> [(copilotTitle (t w), queryCopilotUsage w (Some a))]) @
     (case anthropic authData of
        None \<Rightarrow> []
      | Some a \<Rightarrow> [(anthropicTitle (t w), snd (queryAnthropicUsage w (Some a)))])"

definition collect :: "(jsstring \<times> QueryResult option) list \<Rightarrow> collected" where
  "collect qs = foldl (\<lambda>acc q. collectResult (snd q) (fst q) acc) ([], [], []) qs"

definition aggregate :: "'a host_scheme \<Rightarrow> collected \<Rightarrow> jsstring" where
  "aggregate h acc =
     (case acc of (results, errors, rows) \<Rightarrow>
        if length results = 0 \<and> length errors = 0 then noAccounts (t h)
        else
          let output0 = (if length rows > 0 then renderTable h rows
                         else if length results > 0 then join newline results
                         else []);
              output1 = (if length errors > 0
                         then (if output0 \<noteq> [] then output0 @ newline @ newline else output0) @
                              queryFailed (t h) @ join newline errors
                         else output0)
          in output1)"

definition execute :: "'a world_scheme \<Rightarrow> jsstring" where
  "execute w =
     (case readAuth w of
        Inl err \<Rightarrow> authError (t w) (authPath w) err
      | Inr authData \<Rightarrow> aggregate w (collect (queries w authData)))"

text \<open>
  The error strings that the failures among settled results carry, in order,
  and the test that no result is a success: the terms in which the properties
  of the aggregator are stated.
\<close>

definition error_lines :: "(jsstring \<times> QueryResult option) list \<Rightarrow> jsstring list" where
  "error_lines qs =
     concat (map (\<lambda>q. case snd q of
                          None \<Rightarrow> []
                        | Some r \<Rightarrow>
                            if success r then []
                            else (case error r of
                                    None \<Rightarrow> []
                                  | Some e \<Rightarrow> if e = [] then [] else [e])) qs)"

definition no_success :: "(jsstring \<times> QueryResult option) list \<Rightarrow> bool" where
  "no_success qs = list_all (\<lambda>q. case snd q of None \<Rightarrow> True | Some r \<Rightarrow> \<not> success r) qs"

section \<open>Concrete inputs\<close>

text \<open>
  A host and a world to evaluate the definitions on: the English table, every
  reading of the clock at 1000 ms, one calendar reading, an OpenAI endpoint
  that answers 200 with a plan and no rate limit, and every other request
  failing.
\<close>

definition row_at :: "int \<Rightarrow> row_clock" where
  "row_at n = \<lparr>guard_now = n, date_now = n, full_now = n\<rparr>"

definition text_at :: "int \<Rightarrow> text_clock" where
  "text_at n = \<lparr>test_now = n, text_now = n\<rparr>"

definition example_date :: DateParts where
  "example_date = \<lparr>getDate = 19, getMonth = 1, getFullYear = 2026,
                    getHours = 11, getMinutes = 20, getSeconds = 10\<rparr>"

definition example_usage :: OpenAIUsageResponse where
  "example_usage = \<lparr>plan_type = ascii ''plus'', rate_limit = None\<rparr>"

definition example_auth :: AuthData where
  "example_auth = \<lparr>openai = None, github_copilot = None, minimax_coding_plan = None,
                    minimax = None, anthropic = None\<rparr>"

definition example_world :: world where
  "example_world =
     \<lparr>currentLang = En, localTime = (\<lambda>ts. example_date),
      decodePayload = (\<lambda>s. None),
      parseDate = (\<lambda>s. None),
      fetchOpenAI = (\<lambda>tok hdr. Responded 200 [] (Inr example_usage)),
      fetchRefresh = (\<lambda>r. Rejected (ascii ''fetch failed'')),
      fetchClaude = (\<lambda>tok. Responded 500 (ascii ''Internal Server Error'') (Inl [])),
      execCurl = (\<lambda>k. Inl (ascii ''Command failed'')),
      authPath = ascii ''/home/u/.local/share/opencode/auth.json'',
      readAuth = Inr example_auth,
      queryCopilotUsage = (\<lambda>a. None),
      openai_time = \<lparr>expiry_now = 1000, row_now = 1000, format_now = 1000\<rparr>,
      anthropic_time =
        \<lparr>refresh_now = 1000, five_row = row_at 1000, seven_row = row_at 1000,
         five_text = text_at 1000, seven_text = text_at 1000\<rparr>,
      minimax_time = \<lparr>mm_row = row_at 1000, mm_text = text_at 1000\<rparr>\<rparr>"

definition oauth_credential :: "jsstring \<Rightarrow> int option \<Rightarrow> OAuthData" where
  "oauth_credential token e =
     \<lparr>auth_type = ascii ''oauth'', access = Some token, refresh = None, expires = e\<rparr>"

text \<open>
  Worlds whose endpoints answer: Anthropic with both windows, MiniMax with one
  per-model entry, OpenAI with a primary and a secondary window.
\<close>

definition example_claude :: ClaudeUsageResponse where
  "example_claude =
     \<lparr>five_hour = Some \<lparr>utilization = 25, resets_at = []\<rparr>,
      seven_day = Some \<lparr>utilization = 40, resets_at = []\<rparr>,
      seven_day_sonnet = None\<rparr>"

definition claude_world :: world where
  "claude_world = example_world\<lparr>fetchClaude := (\<lambda>tok. Responded 200 [] (Inr (Some example_claude)))\<rparr>"

definition example_minimax :: MiniMaxRemainsResponse where
  "example_minimax =
     \<lparr>base_resp = \<lparr>status_code = 0, status_msg = ascii ''success''\<rparr>,
      model_remains =
        Some [\<lparr>start_time = 0, end_time = 0, remains_time = 0,
               current_interval_total_count = 5000, current_interval_usage_count = 1000,
               model_name = ascii ''MiniMax-M2''\<rparr>],
      data = None\<rparr>"

definition minimax_world :: world where
  "minimax_world = example_world\<lparr>execCurl := (\<lambda>k. Inr (ascii ''{}'', Some example_minimax))\<rparr>"

definition example_windows :: OpenAIUsageResponse where
  "example_windows =
     \<lparr>plan_type = ascii ''plus'',
      rate_limit =
        Some \<lparr>limit_reached = False,
              primary_window =
                Some \<lparr>used_percent = 15, limit_window_seconds = 18000,
                      reset_after_seconds = 9000\<rparr>,
              secondary_window =
                Some \<lparr>used_percent = 30, limit_window_seconds = 604800,
                      reset_after_seconds = 86400\<rparr>\<rparr>\<rparr>"

definition openai_world :: world where
  "openai_world = example_world\<lparr>fetchOpenAI := (\<lambda>tok hdr. Responded 200 [] (Inr example_windows))\<rparr>"





text \<open>
  A world that refuses the access token \<open>tok\<close> at the usage endpoint of
  Anthropic and answers every other token.
\<close>

definition refusing_world :: world where
  "refusing_world =
     example_world\<lparr>fetchClaude :=
       (\<lambda>tok. if tok = ascii ''tok'' then Responded 401 (ascii ''Unauthorized'') (Inl [])
              else Responded 200 [] (Inr (Some example_claude)))\<rparr>"

section \<open>Rounding to a double\<close>

lemma round_even_of_int: "round_even (of_int n) = n"
  by (simp add: round_even_def)

lemma round_even_nonneg: "0 \<le> y \<Longrightarrow> 0 \<le> round_even y"
proof -
  assume "0 \<le> y"
  then have "0 \<le> \<lfloor>y\<rfloor>" by simp
  then show ?thesis by (simp add: round_even_def Let_def)
qed

lemma round_even_le: "y \<le> of_int n \<Longrightarrow> round_even y \<le> n"
proof (cases "y = of_int n")
  case True
  then show ?thesis by (simp add: round_even_of_int)
next
  case False
  assume "y \<le> of_int n"
  then have "y < of_int n" using False by simp
  then have "\<lfloor>y\<rfloor> < n" by (simp add: floor_less_iff)
  then show ?thesis by (simp add: round_even_def Let_def)
qed

lemma expo_lower: "x \<noteq> 0 \<Longrightarrow> 2 powi (expo x) \<le> \<bar>x\<bar>"
proof -
  assume nz: "x \<noteq> 0"
  obtain p q where pq: "quotient_of \<bar>x\<bar> = (p, q)" by (cases "quotient_of \<bar>x\<bar>")
  have q0: "0 < q" using pq by (rule quotient_of_denom_pos)
  have xa: "\<bar>x\<bar> = of_int p / of_int q" using pq by (rule quotient_of_div)
  have "0 < \<bar>x\<bar>" using nz by simp
  then have p0: "0 < p" using xa q0 by (simp add: zero_less_divide_iff)
  let ?d = "bitlen p - bitlen q"
  show ?thesis
  proof (cases "2 powi ?d \<le> \<bar>x\<bar>")
    case True
    then show ?thesis by (simp add: expo_def pq Let_def)
  next
    case False
    have bp: "1 \<le> bitlen p" using p0 bitlen_eq_zero_iff [of p] bitlen_nonneg [of p] by linarith
    have bq: "1 \<le> bitlen q" using q0 bitlen_eq_zero_iff [of q] bitlen_nonneg [of q] by linarith
    have lp: "(2::int) ^ nat (bitlen p - 1) \<le> p" using bitlen_bounds [OF p0] by simp
    have uq: "q < 2 ^ nat (bitlen q)" using bitlen_bounds [OF q0] by simp
    have lp': "(2::rat) powi (bitlen p - 1) \<le> of_int p"
    proof -
      have "(of_int ((2::int) ^ nat (bitlen p - 1)) :: rat) \<le> of_int p"
        using lp by (simp only: of_int_le_iff)
      then show ?thesis using bp by (simp add: power_int_def)
    qed
    have uq': "(of_int q :: rat) \<le> 2 powi (bitlen q)"
    proof -
      have "(of_int q :: rat) < of_int ((2::int) ^ nat (bitlen q))"
        using uq by (simp only: of_int_less_iff)
      then show ?thesis using bq by (simp add: power_int_def)
    qed
    have "(2::rat) powi (?d - 1) = 2 powi (bitlen p - 1) / 2 powi (bitlen q)"
      by (simp add: power_int_diff)
    also have "\<dots> \<le> of_int p / 2 powi (bitlen q)"
      using lp' by (simp add: divide_right_mono)
    also have "\<dots> \<le> of_int p / of_int q"
      using uq' p0 q0 by (simp add: frac_le)
    finally have "(2::rat) powi (?d - 1) \<le> \<bar>x\<bar>" by (simp add: xa)
    then show ?thesis using False by (simp add: expo_def pq Let_def)
  qed
qed

lemma expo_upper: "x \<noteq> 0 \<Longrightarrow> \<bar>x\<bar> < 2 powi (expo x + 1)"
proof -
  assume nz: "x \<noteq> 0"
  obtain p q where pq: "quotient_of \<bar>x\<bar> = (p, q)" by (cases "quotient_of \<bar>x\<bar>")
  have q0: "0 < q" using pq by (rule quotient_of_denom_pos)
  have xa: "\<bar>x\<bar> = of_int p / of_int q" using pq by (rule quotient_of_div)
  have "0 < \<bar>x\<bar>" using nz by simp
  then have p0: "0 < p" using xa q0 by (simp add: zero_less_divide_iff)
  let ?d = "bitlen p - bitlen q"
  show ?thesis
  proof (cases "2 powi ?d \<le> \<bar>x\<bar>")
    case False
    then show ?thesis by (simp add: expo_def pq Let_def)
  next
    case True
    have bp: "1 \<le> bitlen p" using p0 bitlen_eq_zero_iff [of p] bitlen_nonneg [of p] by linarith
    have bq: "1 \<le> bitlen q" using q0 bitlen_eq_zero_iff [of q] bitlen_nonneg [of q] by linarith
    have up: "p < 2 ^ nat (bitlen p)" using bitlen_bounds [OF p0] by simp
    have lq: "(2::int) ^ nat (bitlen q - 1) \<le> q" using bitlen_bounds [OF q0] by simp
    have up': "(of_int p :: rat) < 2 powi (bitlen p)"
    proof -
      have "(of_int p :: rat) < of_int ((2::int) ^ nat (bitlen p))"
        using up by (simp only: of_int_less_iff)
      then show ?thesis using bp by (simp add: power_int_def)
    qed
    have lq': "(2::rat) powi (bitlen q - 1) \<le> of_int q"
    proof -
      have "(of_int ((2::int) ^ nat (bitlen q - 1)) :: rat) \<le> of_int q"
        using lq by (simp only: of_int_le_iff)
      then show ?thesis using bq by (simp add: power_int_def)
    qed
    have pos: "(0::rat) < 2 powi (bitlen q - 1)" by (simp add: zero_less_power_int)
    have "of_int p / of_int q < 2 powi (bitlen p) / (of_int q :: rat)"
      using up' q0 by (simp add: divide_strict_right_mono)
    also have "\<dots> \<le> 2 powi (bitlen p) / 2 powi (bitlen q - 1)"
      using lq' pos by (simp add: frac_le)
    also have "\<dots> = (2::rat) powi (?d + 1)"
      by (simp add: power_int_diff [symmetric] algebra_simps)
    finally have "\<bar>x\<bar> < 2 powi (?d + 1)" by (simp add: xa)
    then show ?thesis using True by (simp add: expo_def pq Let_def)
  qed
qed

lemma quantum_pos: "0 < quantum x"
  by (simp add: quantum_def zero_less_power_int)

text \<open>
  A double at or above a positive \<open>x\<close> is a multiple of the unit in which
  \<open>x\<close> is rounded.
\<close>

lemma grid:
  assumes "0 < x" "x \<le> of_int m * 2 powi e" "0 \<le> m" "m < 2 ^ 53" "- 1074 \<le> e"
  shows "\<exists>N. of_int m * 2 powi e / quantum x = of_int N"
proof -
  let ?k = "max (expo x - 52) (- 1074)"
  have k: "?k \<le> e"
  proof (rule ccontr)
    assume "\<not> ?k \<le> e"
    then have e: "e + 53 \<le> expo x" using assms(5) by simp
    have "(of_int m :: rat) < 2 ^ 53" using assms(4) by (metis of_int_less_numeral_power_cancel_iff)
    then have "of_int m * 2 powi e < 2 ^ 53 * (2::rat) powi e"
      by (simp add: zero_less_power_int)
    also have "\<dots> = (2::rat) powi (e + 53)"
      by (simp add: power_int_add)
    also have "\<dots> \<le> 2 powi (expo x)"
      using e by (simp add: power_int_increasing)
    also have "\<dots> \<le> x" using expo_lower [of x] assms(1) by simp
    finally show False using assms(2) by simp
  qed
  have "of_int m * 2 powi e / quantum x = of_int m * (2::rat) powi (e - ?k)"
    by (simp add: quantum_def power_int_diff)
  also have "\<dots> = of_int m * 2 ^ nat (e - ?k)"
    using k by (simp add: power_int_def)
  also have "\<dots> = of_int (m * 2 ^ nat (e - ?k))" by simp
  finally show ?thesis by blast
qed

lemma fl_nonneg: "0 \<le> x \<Longrightarrow> 0 \<le> fl x"
  using quantum_pos [of x] by (simp add: fl_def round_even_nonneg)

lemma fl_le:
  assumes "0 \<le> x" "x \<le> of_int m * 2 powi e" "0 \<le> m" "m < 2 ^ 53" "- 1074 \<le> e"
  shows "fl x \<le> of_int m * 2 powi e"
proof (cases "x = 0")
  case True
  then show ?thesis using assms(3) by (simp add: fl_def zero_less_power_int)
next
  case False
  then have x: "0 < x" using assms(1) by simp
  obtain N where N: "of_int m * 2 powi e / quantum x = of_int N"
    using grid [OF x assms(2-5)] by blast
  have "x / quantum x \<le> of_int m * 2 powi e / quantum x"
    using assms(2) quantum_pos [of x] by (simp add: divide_right_mono)
  then have "round_even (x / quantum x) \<le> N" by (simp add: N round_even_le)
  then have "of_int (round_even (x / quantum x)) * quantum x \<le> of_int N * quantum x"
    using quantum_pos [of x] by simp
  also have "\<dots> = of_int m * 2 powi e"
    using N quantum_pos [of x] by (simp add: field_simps)
  finally show ?thesis using False by (simp add: fl_def)
qed

lemma fl_exact:
  assumes "0 \<le> m" "m < 2 ^ 53" "- 1074 \<le> e"
  shows "fl (of_int m * 2 powi e) = of_int m * 2 powi e"
proof (cases "m = 0")
  case True
  then show ?thesis by (simp add: fl_def)
next
  case False
  let ?r = "of_int m * (2::rat) powi e"
  have r: "0 < ?r" using False assms(1) by (simp add: zero_less_power_int)
  obtain N where N: "?r / quantum ?r = of_int N"
    using grid [OF r _ assms] by blast
  have "of_int (round_even (?r / quantum ?r)) * quantum ?r = of_int N * quantum ?r"
    by (simp add: N round_even_of_int)
  also have "\<dots> = ?r" using N quantum_pos [of ?r] by (simp add: field_simps)
  finally show ?thesis using r by (simp add: fl_def)
qed

lemma fl_of_nat: "n < 2 ^ 53 \<Longrightarrow> fl (of_nat n) = of_nat n"
proof -
  assume "n < 2 ^ 53"
  then have "int n < 2 ^ 53" by (metis of_nat_less_numeral_power_cancel_iff)
  then show ?thesis using fl_exact [of "int n" 0] by simp
qed

lemma fl_le_of_nat: "0 \<le> x \<Longrightarrow> x \<le> of_nat n \<Longrightarrow> n < 2 ^ 53 \<Longrightarrow> fl x \<le> of_nat n"
proof -
  assume a: "0 \<le> x" "x \<le> of_nat n" "n < 2 ^ 53"
  then have "int n < 2 ^ 53" by (metis of_nat_less_numeral_power_cancel_iff)
  then show ?thesis using fl_le [of x "int n" 0] a by simp
qed

section \<open>Properties of the progress bar\<close>

lemma Math_round_eqI:
  "of_int z \<le> x + 1 / 2 \<Longrightarrow> x + 1 / 2 < of_int z + 1 \<Longrightarrow> Math_round x = z"
  unfolding Math_round_def by (rule floor_unique)

lemma Math_round_of_int: "Math_round (of_int z) = z"
  by (rule Math_round_eqI) simp_all

lemma Math_round_numeral: "Math_round (numeral k) = numeral k"
  using Math_round_of_int [of "numeral k"] by simp

lemma Math_round_of_nat: "Math_round (of_nat n) = int n"
  using Math_round_of_int [of "int n"] by simp

lemma Math_round_zero: "Math_round 0 = 0"
  using Math_round_of_int [of 0] by simp

lemma repeat_single: "repeat [c] n = replicate n c"
  by (induction n) (simp_all add: repeat_def)

lemma fl_zero: "fl 0 = 0"
  by (simp add: fl_def)

lemma fl_one: "fl 1 = 1"
  using fl_of_nat [of 1] by simp

lemma filled_bounds:
  assumes "0 \<le> p" "p \<le> 100" "w < 2 ^ 53"
  shows "0 \<le> Math_round (fmul (fdiv p 100) (of_nat w)) \<and>
         Math_round (fmul (fdiv p 100) (of_nat w)) \<le> int w"
proof -
  let ?q = "fdiv p 100"
  have q0: "0 \<le> ?q" using assms(1) by (simp add: fdiv_def fl_nonneg)
  have "p / 100 \<le> of_nat 1" using assms(2) by simp
  then have "fl (p / 100) \<le> of_nat 1"
    using assms(1) by (intro fl_le_of_nat) simp_all
  then have q1: "?q \<le> 1" by (simp add: fdiv_def)
  have w0: "(0::rat) \<le> of_nat w" by simp
  let ?x = "fmul ?q (of_nat w)"
  have y0: "0 \<le> ?q * of_nat w" using q0 w0 by simp
  have "?q * of_nat w \<le> 1 * of_nat w" using q1 w0 by (rule mult_right_mono)
  then have y1: "?q * of_nat w \<le> of_nat w" by simp
  have x0: "0 \<le> ?x" using y0 by (simp add: fmul_def fl_nonneg)
  have x1: "?x \<le> of_int (int w)"
    using fl_le_of_nat [OF y0 y1 assms(3)] by (simp add: fmul_def)
  have lo: "0 \<le> \<lfloor>?x + 1 / 2\<rfloor>" using x0 by simp
  have "?x + 1 / 2 < of_int (int w) + 1" using x1 by simp
  then have "?x + 1 / 2 < of_int (int w + 1)" by simp
  then have "\<lfloor>?x + 1 / 2\<rfloor> < int w + 1" by (simp only: floor_less_iff)
  then show ?thesis using lo by (simp add: Math_round_def)
qed

lemma createProgressBar_shape:
  assumes "0 \<le> sp" "sp \<le> 100" "w < 2 ^ 53" "safePercent x = Some sp"
  shows "createProgressBar x w =
     replicate (nat (Math_round (fmul (fdiv sp 100) (of_nat w)))) filledChar @
     replicate (w - nat (Math_round (fmul (fdiv sp 100) (of_nat w)))) emptyChar"
proof -
  let ?f = "Math_round (fmul (fdiv sp 100) (of_nat w))"
  have b: "0 \<le> ?f \<and> ?f \<le> int w" using assms(1-3) by (rule filled_bounds)
  then have "nat (int w - ?f) = w - nat ?f" by linarith
  then show ?thesis
    by (simp add: createProgressBar_def assms(4) Let_def repeat_single)
qed

lemma safePercent_Num: "safePercent (Num q) = Some (max 0 (min 100 q))"
  by (simp add: safePercent_def)

lemma bar_empty: "w < 2 ^ 53 \<Longrightarrow> safePercent x = Some 0 \<Longrightarrow> createProgressBar x w = replicate w emptyChar"
  using createProgressBar_shape [of 0 w x]
  by (simp add: fdiv_def fmul_def fl_zero Math_round_zero)

lemma bar_full: "w < 2 ^ 53 \<Longrightarrow> safePercent x = Some 100 \<Longrightarrow> createProgressBar x w = replicate w filledChar"
  using createProgressBar_shape [of 100 w x]
  by (simp add: fdiv_def fmul_def fl_one fl_of_nat Math_round_of_nat)

text \<open>
  C8, as amended. For a numeric percentage in [0,100] and a width \<open>w\<close> with
  \<open>0 < w < 2 ^ 53\<close> the bar has exactly \<open>w\<close> characters: as many solid blocks
  as \<open>Math.round\<close> gives for the double \<open>(remainPercent / 100) * w\<close>, then light
  blocks for the rest. A number or an infinity outside [0,100] gives the bar of
  the clamped percentage: all light blocks at or below 0, all solid blocks at
  or above 100. \<open>NaN\<close> gives the empty string.
\<close>

theorem createProgressBar_spec:
  "(0 \<le> p \<and> p \<le> 100 \<and> 0 < w \<and> w < 2 ^ 53 \<longrightarrow>
      length (createProgressBar (Num p) w) = w \<and>
      nat (Math_round (fmul (fdiv p 100) (of_nat w))) \<le> w \<and>
      createProgressBar (Num p) w =
        replicate (nat (Math_round (fmul (fdiv p 100) (of_nat w)))) filledChar @
        replicate (w - nat (Math_round (fmul (fdiv p 100) (of_nat w)))) emptyChar) \<and>
   (w < 2 ^ 53 \<longrightarrow>
      createProgressBar (Num q) w = createProgressBar (Num (max 0 (min 100 q))) w \<and>
      length (createProgressBar (Num q) w) = w \<and>
      (q \<le> 0 \<longrightarrow> createProgressBar (Num q) w = replicate w emptyChar) \<and>
      (100 \<le> q \<longrightarrow> createProgressBar (Num q) w = replicate w filledChar) \<and>
      createProgressBar NegInf w = replicate w emptyChar \<and>
      createProgressBar PosInf w = replicate w filledChar) \<and>
   createProgressBar NaN w = []"
proof -
  have len: "length (createProgressBar (Num x) w) = w" if w: "w < 2 ^ 53" for x
  proof -
    let ?s = "max 0 (min 100 x)"
    have r: "0 \<le> ?s" "?s \<le> 100" by simp_all
    have "nat (Math_round (fmul (fdiv ?s 100) (of_nat w))) \<le> w"
      using filled_bounds [OF r w] by linarith
    then show ?thesis
      by (simp only: createProgressBar_shape [OF r w safePercent_Num] length_append
          length_replicate) simp
  qed
  have main: "length (createProgressBar (Num p) w) = w \<and>
      nat (Math_round (fmul (fdiv p 100) (of_nat w))) \<le> w \<and>
      createProgressBar (Num p) w =
        replicate (nat (Math_round (fmul (fdiv p 100) (of_nat w)))) filledChar @
        replicate (w - nat (Math_round (fmul (fdiv p 100) (of_nat w)))) emptyChar"
    if h: "0 \<le> p \<and> p \<le> 100 \<and> 0 < w \<and> w < 2 ^ 53"
  proof -
    have p: "0 \<le> p" "p \<le> 100" and w: "w < 2 ^ 53" using h by simp_all
    have e: "safePercent (Num p) = Some p" using p by (simp add: safePercent_def)
    have "nat (Math_round (fmul (fdiv p 100) (of_nat w))) \<le> w"
      using filled_bounds [OF p w] by linarith
    then show ?thesis
      using len [OF w, of p] createProgressBar_shape [OF p w e] by simp
  qed
  have idem: "createProgressBar (Num q) w = createProgressBar (Num (max 0 (min 100 q))) w"
    by (simp add: createProgressBar_def safePercent_def)
  have low: "createProgressBar (Num q) w = replicate w emptyChar" if "w < 2 ^ 53" "q \<le> 0"
  proof -
    have "safePercent (Num q) = Some 0" using that(2) by (simp add: safePercent_def)
    then show ?thesis using that(1) by (rule bar_empty [rotated])
  qed
  have high: "createProgressBar (Num q) w = replicate w filledChar" if "w < 2 ^ 53" "100 \<le> q"
  proof -
    have "safePercent (Num q) = Some 100" using that(2) by (simp add: safePercent_def)
    then show ?thesis using that(1) by (rule bar_full [rotated])
  qed
  have ninf: "createProgressBar NegInf w = replicate w emptyChar" if "w < 2 ^ 53"
    using that by (intro bar_empty) (simp_all add: safePercent_def)
  have pinf: "createProgressBar PosInf w = replicate w filledChar" if "w < 2 ^ 53"
    using that by (intro bar_full) (simp_all add: safePercent_def)
  have nan: "createProgressBar NaN w = []"
    by (simp add: createProgressBar_def safePercent_def)
  show ?thesis using main idem len [of q] low high ninf pinf nan by blast
qed

lemma example_filled: "Math_round (fmul (fdiv 58 100) 25) = 14"
  by code_simp

theorem createProgressBar_spec_witness:
  "createProgressBar (Num 58) 25 = replicate 14 filledChar @ replicate 11 emptyChar \<and>
   length (createProgressBar (Num 58) 25) = 25 \<and>
   createProgressBar (Num (-5)) 25 = replicate 25 emptyChar \<and>
   createProgressBar (Num 250) 25 = replicate 25 filledChar \<and>
   createProgressBar PosInf 25 = replicate 25 filledChar \<and>
   createProgressBar NaN 25 = []"
proof -
  have w: "(25::nat) < 2 ^ 53" by simp
  have a: "createProgressBar (Num 58) 25 = replicate 14 filledChar @ replicate 11 emptyChar \<and>
           length (createProgressBar (Num 58) 25) = 25"
    using createProgressBar_spec [of 58 25 58] w by (simp add: example_filled)
  have "(-5::rat) \<le> 0" by simp
  then have b: "createProgressBar (Num (-5)) 25 = replicate 25 emptyChar"
    using createProgressBar_spec [of 0 25 "-5"] w by blast
  have "(100::rat) \<le> 250" by simp
  then have c: "createProgressBar (Num 250) 25 = replicate 25 filledChar"
    using createProgressBar_spec [of 0 25 250] w by blast
  have d: "createProgressBar PosInf 25 = replicate 25 filledChar \<and>
           createProgressBar NaN 25 = []"
    using createProgressBar_spec [of 0 25 0] w by blast
  show ?thesis using a b c d by simp
qed

text \<open>
  \<open>NaN\<close> is not clamped: \<open>Math.max(0, Math.min(100, NaN))\<close> is \<open>NaN\<close>, and the
  bar of width 30 has no character. And at 58 percent and width 25 the double
  product is just below 14.5, so that the bar has 14 solid blocks where the
  exact product 14.5 rounds to 15.
\<close>

theorem createProgressBar_counterexample:
  "length (createProgressBar NaN 30) = 0 \<and>
   createProgressBar (Num 58) 25 = replicate 14 filledChar @ replicate 11 emptyChar \<and>
   \<lfloor>(58::rat) / 100 * 25 + 1 / 2\<rfloor> = 15"
proof -
  have a: "length (createProgressBar NaN 30) = 0"
    by (simp add: createProgressBar_def safePercent_def)
  have s: "safePercent (Num 58) = Some 58" by (simp add: safePercent_def)
  have b: "createProgressBar (Num 58) 25 = replicate 14 filledChar @ replicate 11 emptyChar"
    by (simp add: createProgressBar_def s Let_def example_filled repeat_single)
  have c: "\<lfloor>(58::rat) / 100 * 25 + 1 / 2\<rfloor> = 15"
    by (rule floor_unique) simp_all
  show ?thesis using a b c by simp
qed

section \<open>The concrete world\<close>

lemma example_world_fields:
  "currentLang example_world = En"
  "openai_time example_world = \<lparr>expiry_now = 1000, row_now = 1000, format_now = 1000\<rparr>"
  "anthropic_time example_world =
     \<lparr>refresh_now = 1000, five_row = row_at 1000, seven_row = row_at 1000,
      five_text = text_at 1000, seven_text = text_at 1000\<rparr>"
  "minimax_time example_world = \<lparr>mm_row = row_at 1000, mm_text = text_at 1000\<rparr>"
  "localTime example_world ts = example_date"
  "decodePayload example_world s = None"
  "parseDate example_world s = None"
  "fetchOpenAI example_world tok hdr = Responded 200 [] (Inr example_usage)"
  "fetchRefresh example_world r = Rejected (ascii ''fetch failed'')"
  "fetchClaude example_world tok = Responded 500 (ascii ''Internal Server Error'') (Inl [])"
  "execCurl example_world k = Inl (ascii ''Command failed'')"
  "readAuth example_world = Inr example_auth"
  "queryCopilotUsage example_world c = None"
  "t example_world = translations_en"
  by (simp_all add: example_world_def t_def)

section \<open>The aggregator\<close>

lemma collectResult_silent:
  "\<not> success r \<Longrightarrow> error r = None \<or> error r = Some [] \<Longrightarrow> collectResult (Some r) title acc = acc"
  by (cases acc) (auto simp: collectResult_def truthy_str_def)

text \<open>
  C9. A failure result whose \<open>error\<close> is absent or the empty string leaves the
  three accumulators of \<open>collectResult\<close> as they were: no legacy block, no
  error line, no row. The provider is then missing from what \<open>execute\<close>
  collects and renders.
\<close>

theorem silent_failure:
  "\<not> success r \<and> (error r = None \<or> error r = Some []) \<longrightarrow>
     collectResult (Some r) title acc = acc \<and>
     collect (qs1 @ (title, Some r) # qs2) = collect (qs1 @ qs2) \<and>
     aggregate h (collect (qs1 @ (title, Some r) # qs2)) = aggregate h (collect (qs1 @ qs2))"
proof
  assume a: "\<not> success r \<and> (error r = None \<or> error r = Some [])"
  have s: "collectResult (Some r) title x = x" for x
    using a by (intro collectResult_silent) simp_all
  have c: "collect (qs1 @ (title, Some r) # qs2) = collect (qs1 @ qs2)"
    by (simp add: collect_def s)
  show "collectResult (Some r) title acc = acc \<and>
     collect (qs1 @ (title, Some r) # qs2) = collect (qs1 @ qs2) \<and>
     aggregate h (collect (qs1 @ (title, Some r) # qs2)) = aggregate h (collect (qs1 @ qs2))"
    using s c by simp
qed

theorem silent_failure_witness:
  "\<not> success (failure []) \<and> error (failure []) = Some [] \<and>
   collectResult (Some (failure [])) (ascii ''## T'') ([], [ascii ''e''], []) = ([], [ascii ''e''], [])"
  using silent_failure [of "failure []" "ascii ''## T''" "([], [ascii ''e''], [])" "[]" "[]"
      example_world]
  by (simp add: failure_def)

lemma collectResult_errors_prepend:
  "collectResult r title (rs, e # es, rows) =
   (case collectResult r title (rs, es, rows) of (rs', es', rows') \<Rightarrow> (rs', e # es', rows'))"
  by (cases r) (simp_all add: collectResult_def)

lemma collect_errors_prepend:
  "foldl (\<lambda>acc q. collectResult (snd q) (fst q) acc) (rs, e # es, rows) qs =
   (case foldl (\<lambda>acc q. collectResult (snd q) (fst q) acc) (rs, es, rows) qs of
      (rs', es', rows') \<Rightarrow> (rs', e # es', rows'))"
proof (induction qs arbitrary: rs es rows)
  case Nil
  show ?case by simp
next
  case (Cons q qs)
  obtain rs1 es1 rows1 where st: "collectResult (snd q) (fst q) (rs, es, rows) = (rs1, es1, rows1)"
    by (cases "collectResult (snd q) (fst q) (rs, es, rows)")
  have "collectResult (snd q) (fst q) (rs, e # es, rows) = (rs1, e # es1, rows1)"
    by (simp add: collectResult_errors_prepend [of "snd q" "fst q" rs e es rows] st)
  then show ?case
    by (simp only: foldl_Cons st Cons.IH)
qed

lemma collect_snoc:
  "collect (qs @ [q]) = collectResult (snd q) (fst q) (collect qs)"
  by (simp add: collect_def)

lemma collect_invariant:
  "case collect qs of (results, errors, rows) \<Rightarrow>
     errors = error_lines qs \<and> (results = [] \<or> 2 \<le> length results) \<and>
     (no_success qs \<longrightarrow> results = [] \<and> rows = [])"
proof (induction qs rule: rev_induct)
  case Nil
  show ?case by (simp add: collect_def error_lines_def)
next
  case (snoc q qs)
  obtain results errors rows where c: "collect qs = (results, errors, rows)"
    by (cases "collect qs")
  have ih: "errors = error_lines qs" "results = [] \<or> 2 \<le> length results"
    "no_success qs \<longrightarrow> results = [] \<and> rows = []"
    using snoc.IH by (simp_all add: c)
  have el: "error_lines (qs @ [q]) = error_lines qs @ error_lines [q]"
    by (simp add: error_lines_def)
  have ns: "no_success (qs @ [q]) = (no_success qs \<and> no_success [q])"
    by (simp add: no_success_def)
  show ?case
  proof (cases "snd q")
    case None
    then show ?thesis
      using ih by (simp add: collect_snoc c collectResult_def el ns error_lines_def)
  next
    case (Some r)
    then show ?thesis
      using ih
      by (auto simp: collect_snoc c collectResult_def el ns error_lines_def no_success_def
          truthy_str_def or_else_def split: option.splits)
  qed
qed

lemma renderTable_nonempty: "renderTable h rows \<noteq> []"
  by (simp add: renderTable_def Let_def newline_def)

lemma join_nonempty: "2 \<le> length parts \<Longrightarrow> join newline parts \<noteq> []"
proof -
  assume "2 \<le> length parts"
  then obtain a b rest where "parts = a # b # rest"
    by (cases parts; cases "tl parts") auto
  then show ?thesis by (simp add: join_def newline_def)
qed

text \<open>
  C4. When some adapter returns a failure with an error string, the output is
  the table, or else the legacy blocks, then a blank line, then the
  query-failed header and the error strings, one per line in the order of the
  queries. When no adapter succeeded the output is exactly the header followed
  by the error lines.
\<close>

theorem errors_appended:
  "error_lines qs \<noteq> [] \<longrightarrow>
     (case collect qs of (results, errors, rows) \<Rightarrow>
        errors = error_lines qs \<and>
        (rows \<noteq> [] \<longrightarrow>
           aggregate h (collect qs) =
             renderTable h rows @ newline @ newline @ queryFailed (t h) @
             join newline (error_lines qs)) \<and>
        (rows = [] \<and> results \<noteq> [] \<longrightarrow>
           aggregate h (collect qs) =
             join newline results @ newline @ newline @ queryFailed (t h) @
             join newline (error_lines qs)) \<and>
        (rows = [] \<and> results = [] \<longrightarrow>
           aggregate h (collect qs) = queryFailed (t h) @ join newline (error_lines qs))) \<and>
     (no_success qs \<longrightarrow>
        aggregate h (collect qs) = queryFailed (t h) @ join newline (error_lines qs))"
proof
  assume ne: "error_lines qs \<noteq> []"
  obtain results errors rows where c: "collect qs = (results, errors, rows)"
    by (cases "collect qs")
  have inv: "errors = error_lines qs" "results = [] \<or> 2 \<le> length results"
    "no_success qs \<longrightarrow> results = [] \<and> rows = []"
    using collect_invariant [of qs] by (simp_all add: c)
  have e: "errors \<noteq> []" using ne inv(1) by simp
  have a1: "aggregate h (results, errors, rows) =
             renderTable h rows @ newline @ newline @ queryFailed (t h) @ join newline errors"
    if "rows \<noteq> []"
    using that e by (simp add: aggregate_def Let_def renderTable_nonempty)
  have a2: "aggregate h (results, errors, rows) =
             join newline results @ newline @ newline @ queryFailed (t h) @ join newline errors"
    if "rows = []" "results \<noteq> []"
  proof -
    have "join newline results \<noteq> []" using that inv(2) by (simp add: join_nonempty)
    then show ?thesis using that e by (simp add: aggregate_def Let_def)
  qed
  have a3: "aggregate h (results, errors, rows) = queryFailed (t h) @ join newline errors"
    if "rows = []" "results = []"
    using that e by (simp add: aggregate_def Let_def)
  show "(case collect qs of (results, errors, rows) \<Rightarrow>
        errors = error_lines qs \<and>
        (rows \<noteq> [] \<longrightarrow>
           aggregate h (collect qs) =
             renderTable h rows @ newline @ newline @ queryFailed (t h) @
             join newline (error_lines qs)) \<and>
        (rows = [] \<and> results \<noteq> [] \<longrightarrow>
           aggregate h (collect qs) =
             join newline results @ newline @ newline @ queryFailed (t h) @
             join newline (error_lines qs)) \<and>
        (rows = [] \<and> results = [] \<longrightarrow>
           aggregate h (collect qs) = queryFailed (t h) @ join newline (error_lines qs))) \<and>
     (no_success qs \<longrightarrow>
        aggregate h (collect qs) = queryFailed (t h) @ join newline (error_lines qs))"
    using a1 a2 a3 inv by (simp add: c)
qed

theorem errors_appended_witness:
  "error_lines [(ascii ''## A'', Some (failure (ascii ''boom''))),
                (ascii ''## B'', Some (failure (ascii ''bang'')))] =
     [ascii ''boom'', ascii ''bang''] \<and>
   no_success [(ascii ''## A'', Some (failure (ascii ''boom''))),
               (ascii ''## B'', Some (failure (ascii ''bang'')))] \<and>
   aggregate example_world
     (collect [(ascii ''## A'', Some (failure (ascii ''boom''))),
               (ascii ''## B'', Some (failure (ascii ''bang'')))]) =
     queryFailed translations_en @ ascii ''boom'' @ newline @ ascii ''bang'' \<and>
   aggregate example_world
     (collect [(ascii ''## A'', Some (succeeded (ascii ''fine'') [])),
               (ascii ''## B'', Some (failure (ascii ''bang'')))]) =
     ascii ''## A'' @ newline @ newline @ ascii ''fine'' @ newline @ newline @
     queryFailed translations_en @ ascii ''bang'' \<and>
   aggregate example_world
     (collect [(ascii ''## A'', Some (succeeded (ascii ''fine'') [tableHeader translations_en])),
               (ascii ''## B'', Some (failure (ascii ''bang'')))]) =
     renderTable example_world [tableHeader translations_en] @ newline @ newline @
     queryFailed translations_en @ ascii ''bang''"
proof -
  let ?qs = "[(ascii ''## A'', Some (failure (ascii ''boom''))),
              (ascii ''## B'', Some (failure (ascii ''bang'')))]"
  let ?qs' = "[(ascii ''## A'', Some (succeeded (ascii ''fine'') [])),
               (ascii ''## B'', Some (failure (ascii ''bang'')))]"
  have n: "ascii ''boom'' \<noteq> []" "ascii ''bang'' \<noteq> []" "ascii ''fine'' \<noteq> []"
    by (simp_all add: ascii_def)
  have el: "error_lines ?qs = [ascii ''boom'', ascii ''bang'']"
    by (simp add: error_lines_def failure_def n)
  have ns: "no_success ?qs" by (simp add: no_success_def failure_def)
  have a: "aggregate example_world (collect ?qs) =
      queryFailed translations_en @ ascii ''boom'' @ newline @ ascii ''bang''"
    using errors_appended [of ?qs example_world] ns
    by (simp add: el join_def example_world_fields)
  have el': "error_lines ?qs' = [ascii ''bang'']"
    by (simp add: error_lines_def failure_def succeeded_def n)
  have c': "collect ?qs' = ([ascii ''## A'', [], ascii ''fine''], [ascii ''bang''], [])"
    by (simp add: collect_def collectResult_def failure_def succeeded_def truthy_str_def
        or_else_def n)
  have b: "aggregate example_world (collect ?qs') =
     ascii ''## A'' @ newline @ newline @ ascii ''fine'' @ newline @ newline @
     queryFailed translations_en @ ascii ''bang''"
    using errors_appended [of ?qs' example_world]
    by (simp add: el' c' join_def example_world_fields)
  let ?qt = "[(ascii ''## A'', Some (succeeded (ascii ''fine'') [tableHeader translations_en])),
              (ascii ''## B'', Some (failure (ascii ''bang'')))]"
  have elt: "error_lines ?qt = [ascii ''bang'']"
    by (simp add: error_lines_def failure_def succeeded_def n)
  have ct: "collect ?qt =
      ([ascii ''## A'', [], ascii ''fine''], [ascii ''bang''], [tableHeader translations_en])"
    by (simp add: collect_def collectResult_def failure_def succeeded_def truthy_str_def
        or_else_def n)
  have c: "aggregate example_world (collect ?qt) =
     renderTable example_world [tableHeader translations_en] @ newline @ newline @
     queryFailed translations_en @ ascii ''bang''"
    using errors_appended [of ?qt example_world]
    by (simp add: elt ct join_def example_world_fields)
  show ?thesis using el ns a b c by simp
qed

section \<open>The MiniMax adapter\<close>

text \<open>
  C7. A MiniMax credential record without a key, or with the empty key, gives
  the failure result with the needs-login message, and never \<open>null\<close>; no
  request is made. The same holds when no record is passed at all.
\<close>

theorem minimax_no_key:
  "queryMiniMaxUsage w None = ([], Some (failure (minimaxNeedLogin (t w)))) \<and>
   (key a = None \<or> key a = Some [] \<longrightarrow>
      queryMiniMaxUsage w (Some a) = ([], Some (failure (minimaxNeedLogin (t w)))) \<and>
      snd (queryMiniMaxUsage w (Some a)) \<noteq> None \<and>
      \<not> success (failure (minimaxNeedLogin (t w))))"
  by (auto simp: queryMiniMaxUsage_def failure_def)

theorem minimax_no_key_witness:
  "key \<lparr>key_type = ascii ''api'', key = Some []\<rparr> = Some [] \<and>
   queryMiniMaxUsage example_world (Some \<lparr>key_type = ascii ''api'', key = Some []\<rparr>) =
     ([], Some (failure (minimaxNeedLogin translations_en)))"
  using minimax_no_key [of example_world "\<lparr>key_type = ascii ''api'', key = Some []\<rparr>"]
  by (simp add: t_def example_world_def)


lemma show_int_examples:
  "show_int 25 = ascii ''25''" "show_int 40 = ascii ''40''" "show_int 75 = ascii ''75''"
  "show_int 60 = ascii ''60''" "show_int 80 = ascii ''80''" "show_int 20 = ascii ''20''"
  by (simp_all add: show_int_def show_nat.simps digit_def ascii_def)

lemma calcRemainPercent_examples:
  "calcRemainPercent 25 = 75" "calcRemainPercent 40 = 60"
  by code_simp+

lemma percent_of_eval: "percent_of 1000 5000 = 20"
  by code_simp

lemma round_remaining_eval: "Math_round (fsub 100 20) = 80"
  by code_simp

text \<open>
  C2. When the first per-model entry of a MiniMax response has a total count of
  5000 and a usage count of 1000, the row of the adapter has \<open>used = "80%"\<close>
  and \<open>remaining = "20%"\<close>. For any positive total, \<open>used\<close> is the rounding of
  100 minus the usage percentage and \<open>remaining\<close> the rounding of the usage
  percentage, each computed in doubles as the code computes it.
\<close>

theorem minimax_inverted_row:
  "(model_remains resp = Some (m # ms) \<and> current_interval_total_count m = 5000 \<and>
    current_interval_usage_count m = 1000 \<longrightarrow>
      map_option provider (minimax_extractTableRow h ck resp k) = Some (ascii ''MiniMax'') \<and>
      map_option used (minimax_extractTableRow h ck resp k) = Some (ascii ''80%'') \<and>
      map_option remaining (minimax_extractTableRow h ck resp k) = Some (ascii ''20%'')) \<and>
   (model_remains resp = Some (m # ms) \<and> 0 < current_interval_total_count m \<and>
    current_interval_total_count m < 2 ^ 53 \<and> \<bar>current_interval_usage_count m\<bar> < 2 ^ 53 \<longrightarrow>
      map_option used (minimax_extractTableRow h ck resp k) =
        Some (show_int (Math_round (fsub 100
                (fmul (fdiv (of_int (current_interval_usage_count m))
                         (of_int (current_interval_total_count m))) 100))) @ ascii ''%'') \<and>
      map_option remaining (minimax_extractTableRow h ck resp k) =
        Some (show_int (Math_round
                (fmul (fdiv (of_int (current_interval_usage_count m))
                         (of_int (current_interval_total_count m))) 100)) @ ascii ''%'')) \<and>
   (k \<noteq> [] \<and> fetchWithCurl w k = Inr resp \<longrightarrow>
      queryMiniMaxUsage w (Some \<lparr>key_type = ty, key = Some k\<rparr>) =
        ([MiniMax_curl_call k],
         Some (succeeded (formatMiniMaxUsage w (mm_text (minimax_time w)) resp k)
                 (case minimax_extractTableRow w (mm_row (minimax_time w)) resp k of
                    None \<Rightarrow> []
                  | Some row \<Rightarrow> [row]))))"
proof -
  have gen: "map_option used (minimax_extractTableRow h ck resp k) =
        Some (show_int (Math_round (fsub 100 (percent_of (current_interval_usage_count m)
                (current_interval_total_count m)))) @ ascii ''%'') \<and>
      map_option remaining (minimax_extractTableRow h ck resp k) =
        Some (show_int (Math_round (percent_of (current_interval_usage_count m)
                (current_interval_total_count m))) @ ascii ''%'') \<and>
      map_option provider (minimax_extractTableRow h ck resp k) = Some (ascii ''MiniMax'')"
    if "model_remains resp = Some (m # ms)"
    using that by (simp add: minimax_extractTableRow_def first_model_def Let_def)
  have a: "map_option provider (minimax_extractTableRow h ck resp k) = Some (ascii ''MiniMax'') \<and>
      map_option used (minimax_extractTableRow h ck resp k) = Some (ascii ''80%'') \<and>
      map_option remaining (minimax_extractTableRow h ck resp k) = Some (ascii ''20%'')"
    if "model_remains resp = Some (m # ms) \<and> current_interval_total_count m = 5000 \<and>
    current_interval_usage_count m = 1000"
    using gen that
    by (simp add: percent_of_eval round_remaining_eval Math_round_numeral show_int_examples
        ascii_def)
  have b: "map_option used (minimax_extractTableRow h ck resp k) =
        Some (show_int (Math_round (fsub 100
                (fmul (fdiv (of_int (current_interval_usage_count m))
                         (of_int (current_interval_total_count m))) 100))) @ ascii ''%'') \<and>
      map_option remaining (minimax_extractTableRow h ck resp k) =
        Some (show_int (Math_round
                (fmul (fdiv (of_int (current_interval_usage_count m))
                         (of_int (current_interval_total_count m))) 100)) @ ascii ''%'')"
    if "model_remains resp = Some (m # ms) \<and> 0 < current_interval_total_count m \<and>
    current_interval_total_count m < 2 ^ 53 \<and> \<bar>current_interval_usage_count m\<bar> < 2 ^ 53"
    using gen that by (simp add: percent_of_def)
  have c: "queryMiniMaxUsage w (Some \<lparr>key_type = ty, key = Some k\<rparr>) =
        ([MiniMax_curl_call k],
         Some (succeeded (formatMiniMaxUsage w (mm_text (minimax_time w)) resp k)
                 (case minimax_extractTableRow w (mm_row (minimax_time w)) resp k of
                    None \<Rightarrow> []
                  | Some row \<Rightarrow> [row])))"
    if "k \<noteq> [] \<and> fetchWithCurl w k = Inr resp"
    using that by (simp add: queryMiniMaxUsage_def)
  show ?thesis using a b c by blast
qed

lemma minimax_world_fields:
  "execCurl minimax_world k = Inr (ascii ''{}'', Some example_minimax)"
  "t minimax_world = translations_en"
  "minimax_time minimax_world = \<lparr>mm_row = row_at 1000, mm_text = text_at 1000\<rparr>"
  by (simp_all add: minimax_world_def example_world_def t_def)

lemma example_minimax_row:
  "minimax_extractTableRow minimax_world (row_at 1000) example_minimax (ascii ''sk-key'') =
     Some \<lparr>provider = ascii ''MiniMax'', account = ascii ''sk-key'', plan = ascii ''Coding Plan'',
           used = ascii ''80%'', remaining = ascii ''20%'', resetIn = ascii ''-'',
           resetDate = ascii ''-''\<rparr>"
  by code_simp

theorem minimax_inverted_row_witness:
  "model_remains example_minimax =
     Some [\<lparr>start_time = 0, end_time = 0, remains_time = 0,
            current_interval_total_count = 5000, current_interval_usage_count = 1000,
            model_name = ascii ''MiniMax-M2''\<rparr>] \<and>
   fetchWithCurl minimax_world (ascii ''sk-key'') = Inr example_minimax \<and>
   minimax_extractTableRow minimax_world (row_at 1000) example_minimax (ascii ''sk-key'') =
     Some \<lparr>provider = ascii ''MiniMax'', account = ascii ''sk-key'', plan = ascii ''Coding Plan'',
           used = ascii ''80%'', remaining = ascii ''20%'', resetIn = ascii ''-'',
           resetDate = ascii ''-''\<rparr> \<and>
   map_option used
     (minimax_extractTableRow minimax_world (row_at 1000) example_minimax (ascii ''sk-key'')) =
     Some (ascii ''80%'') \<and>
   map_option remaining
     (minimax_extractTableRow minimax_world (row_at 1000) example_minimax (ascii ''sk-key'')) =
     Some (ascii ''20%'') \<and>
   map_option tableRows
     (snd (queryMiniMaxUsage minimax_world
            (Some \<lparr>key_type = ascii ''api'', key = Some (ascii ''sk-key'')\<rparr>))) =
     Some (Some [\<lparr>provider = ascii ''MiniMax'', account = ascii ''sk-key'',
                  plan = ascii ''Coding Plan'', used = ascii ''80%'', remaining = ascii ''20%'',
                  resetIn = ascii ''-'', resetDate = ascii ''-''\<rparr>])"
proof -
  let ?m = "\<lparr>start_time = 0, end_time = 0, remains_time = 0,
            current_interval_total_count = 5000, current_interval_usage_count = 1000,
            model_name = ascii ''MiniMax-M2''\<rparr>"
  have n: "ascii ''sk-key'' \<noteq> []" by (simp add: ascii_def)
  have mr: "model_remains example_minimax = Some [?m]" by (simp add: example_minimax_def)
  have f: "fetchWithCurl minimax_world (ascii ''sk-key'') = Inr example_minimax"
    by (simp add: fetchWithCurl_def minimax_world_fields) (simp add: example_minimax_def)
  show ?thesis
    using minimax_inverted_row [of example_minimax ?m "[]" minimax_world "row_at 1000"
        "ascii ''sk-key''" minimax_world "ascii ''api''"]
    by (simp add: n mr f example_minimax_row minimax_world_fields succeeded_def)
qed

section \<open>The OpenAI adapter\<close>

lemma tokenExpired_nonempty: "tokenExpired (t w) \<noteq> []"
  by (cases "currentLang w") (simp_all add: t_def translations_en_def translations_vi_def)

text \<open>
  C3, as amended. An OpenAI credential of type \<open>oauth\<close> with an access token
  whose \<open>expires\<close> is not zero and lies in the past gives the failure result
  with the expired-token message, and no request is made. In \<open>execute\<close> the
  failure adds that one message to the errors: the legacy blocks and the rows
  collected are those of the other configured providers, unchanged.
\<close>

theorem openai_expired:
  "auth_type a = ascii ''oauth'' \<and> access a = Some token \<and> token \<noteq> [] \<and>
   expires a = Some e \<and> e \<noteq> 0 \<and> e < expiry_now (openai_time w) \<longrightarrow>
     queryOpenAIUsage w (Some a) = ([], Some (failure (tokenExpired (t w)))) \<and>
     (openai auth = Some a \<longrightarrow>
        collect (queries w auth) =
          (case collect (queries w (auth\<lparr>openai := None\<rparr>)) of
             (results, errors, rows) \<Rightarrow> (results, tokenExpired (t w) # errors, rows)))"
proof
  assume h: "auth_type a = ascii ''oauth'' \<and> access a = Some token \<and> token \<noteq> [] \<and>
   expires a = Some e \<and> e \<noteq> 0 \<and> e < expiry_now (openai_time w)"
  have q: "queryOpenAIUsage w (Some a) = ([], Some (failure (tokenExpired (t w))))"
    using h by (simp add: queryOpenAIUsage_def)
  have c: "collectResult (Some (failure (tokenExpired (t w)))) title ([], [], []) =
           ([], [tokenExpired (t w)], [])" for title
    using tokenExpired_nonempty [of w]
    by (simp add: collectResult_def failure_def truthy_str_def or_else_def)
  have "collect (queries w auth) =
          (case collect (queries w (auth\<lparr>openai := None\<rparr>)) of
             (results, errors, rows) \<Rightarrow> (results, tokenExpired (t w) # errors, rows))"
    if o: "openai auth = Some a"
  proof -
    have qs: "queries w auth =
        (openaiTitle (t w), Some (failure (tokenExpired (t w)))) #
        queries w (auth\<lparr>openai := None\<rparr>)"
      by (simp add: queries_def o q split: option.splits)
    show ?thesis
      unfolding collect_def qs foldl_Cons snd_conv fst_conv c
      by (rule collect_errors_prepend)
  qed
  then show "queryOpenAIUsage w (Some a) = ([], Some (failure (tokenExpired (t w)))) \<and>
     (openai auth = Some a \<longrightarrow>
        collect (queries w auth) =
          (case collect (queries w (auth\<lparr>openai := None\<rparr>)) of
             (results, errors, rows) \<Rightarrow> (results, tokenExpired (t w) # errors, rows)))"
    using q by simp
qed

theorem openai_expired_witness:
  "auth_type (oauth_credential (ascii ''a.b.c'') (Some 999)) = ascii ''oauth'' \<and>
   access (oauth_credential (ascii ''a.b.c'') (Some 999)) = Some (ascii ''a.b.c'') \<and>
   (999::int) < expiry_now (openai_time example_world) \<and>
   queryOpenAIUsage example_world (Some (oauth_credential (ascii ''a.b.c'') (Some 999))) =
     ([], Some (failure (tokenExpired translations_en))) \<and>
   collect (queries example_world
     (example_auth\<lparr>openai := Some (oauth_credential (ascii ''a.b.c'') (Some 999))\<rparr>)) =
     ([], [tokenExpired translations_en], [])"
proof -
  have n: "ascii ''a.b.c'' \<noteq> []" by (simp add: ascii_def)
  have e: "collect (queries example_world (example_auth\<lparr>openai := None\<rparr>)) = ([], [], [])"
    by (simp add: collect_def queries_def example_auth_def)
  note w = example_world_fields
  show ?thesis
    using openai_expired [of "oauth_credential (ascii ''a.b.c'') (Some 999)" "ascii ''a.b.c''" 999
        example_world "example_auth\<lparr>openai := Some (oauth_credential (ascii ''a.b.c'') (Some 999))\<rparr>"]
    by (simp add: n e w oauth_credential_def)
qed

text \<open>
  An \<open>expires\<close> of 0 is an instant in the past, and yet the test
  \<open>authData.expires && authData.expires < Date.now()\<close> does not hold for it:
  the usage request is made and its answer becomes the result.
\<close>

theorem openai_expires_zero_counterexample:
  "auth_type (oauth_credential (ascii ''a.b.c'') (Some 0)) = ascii ''oauth'' \<and>
   access (oauth_credential (ascii ''a.b.c'') (Some 0)) = Some (ascii ''a.b.c'') \<and>
   expires (oauth_credential (ascii ''a.b.c'') (Some 0)) = Some 0 \<and>
   (0::int) < expiry_now (openai_time example_world) \<and>
   queryOpenAIUsage example_world (Some (oauth_credential (ascii ''a.b.c'') (Some 0))) =
     ([OpenAI_usage_call (ascii ''a.b.c'') None],
      Some (succeeded (formatOpenAIUsage example_world example_usage None) []))"
proof -
  have n: "ascii ''a.b.c'' \<noteq> []" by (simp add: ascii_def)
  have j: "parseJwt example_world (ascii ''a.b.c'') = None"
    by (simp add: parseJwt_def ascii_def example_world_fields)
  have f: "fetchOpenAIUsage example_world (ascii ''a.b.c'') =
      ([OpenAI_usage_call (ascii ''a.b.c'') None], Inr example_usage)"
    by (simp add: fetchOpenAIUsage_def getAccountIdFromJwt_def j truthy_str_def ok_def
        example_world_fields)
  have x: "openai_extractTableRow example_world n fn example_usage None = None" for n fn
    by (simp add: openai_extractTableRow_def example_usage_def)
  note w = example_world_fields
  show ?thesis
    by (simp add: queryOpenAIUsage_def oauth_credential_def n f x getEmailFromJwt_def j w)
qed

text \<open>
  C5. For a usage response with a primary and a secondary window the adapter
  returns one row. The row is that of the primary window, whatever the
  secondary window is. The secondary window is in the legacy text: its name,
  its bar with the remaining percentage and its reset duration are the three
  lines that follow the lines of the primary window and a blank line.
\<close>

theorem openai_primary_only:
  "rate_limit resp = Some rl \<and> primary_window rl = Some p \<and> secondary_window rl = Some s \<longrightarrow>
     openai_extractTableRow h now fnow resp email =
       openai_extractTableRow h now fnow
         (resp\<lparr>rate_limit := Some (rl\<lparr>secondary_window := s'\<rparr>)\<rparr>) email \<and>
     map_option provider (openai_extractTableRow h now fnow resp email) = Some (ascii ''OpenAI'') \<and>
     map_option used (openai_extractTableRow h now fnow resp email) =
       Some (show_int (used_percent p) @ ascii ''%'') \<and>
     map_option remaining (openai_extractTableRow h now fnow resp email) =
       Some (show_int (calcRemainPercent (of_int (used_percent p))) @ ascii ''%'') \<and>
     formatOpenAIUsage h resp email =
       join newline
         ([account_label (t h) @ ascii ''        '' @ or_else email (unknown (t h)) @ ascii '' ('' @
           plan_type resp @ ascii '')'',
           [],
           formatWindowName h (limit_window_seconds p),
           createProgressBar (Num (of_int (calcRemainPercent (of_int (used_percent p))))) 30 @
           ascii '' '' @ remaining_label (t h) (calcRemainPercent (of_int (used_percent p))),
           resetIn_label (t h) (formatDuration h (reset_after_seconds p)),
           [],
           formatWindowName h (limit_window_seconds s),
           createProgressBar (Num (of_int (calcRemainPercent (of_int (used_percent s))))) 30 @
           ascii '' '' @ remaining_label (t h) (calcRemainPercent (of_int (used_percent s))),
           resetIn_label (t h) (formatDuration h (reset_after_seconds s))] @
          (if limit_reached rl then [[], limitReached (t h)] else [])) \<and>
     (auth_type a = ascii ''oauth'' \<and> access a = Some token \<and> token \<noteq> [] \<and>
      (case expires a of None \<Rightarrow> True | Some e \<Rightarrow> e = 0 \<or> expiry_now (openai_time w) \<le> e) \<and>
      snd (fetchOpenAIUsage w token) = Inr resp \<longrightarrow>
        (case snd (queryOpenAIUsage w (Some a)) of
           None \<Rightarrow> False
         | Some r \<Rightarrow>
             success r \<and>
             map_option length (tableRows r) = Some 1 \<and>
             tableRows r =
               map_option (\<lambda>row. [row])
                 (openai_extractTableRow w (row_now (openai_time w)) (format_now (openai_time w))
                    resp (getEmailFromJwt w token)) \<and>
             output_text r = Some (formatOpenAIUsage w resp (getEmailFromJwt w token))))"
proof
  assume h: "rate_limit resp = Some rl \<and> primary_window rl = Some p \<and> secondary_window rl = Some s"
  have row: "openai_extractTableRow g n fn resp em \<noteq> None"
    for g :: "'c host_scheme" and n fn em
    using h by (simp add: openai_extractTableRow_def Let_def)
  have a: "openai_extractTableRow h now fnow resp email =
       openai_extractTableRow h now fnow
         (resp\<lparr>rate_limit := Some (rl\<lparr>secondary_window := s'\<rparr>)\<rparr>) email"
    using h by (simp add: openai_extractTableRow_def)
  have b: "map_option provider (openai_extractTableRow h now fnow resp email) =
       Some (ascii ''OpenAI'') \<and>
     map_option used (openai_extractTableRow h now fnow resp email) =
       Some (show_int (used_percent p) @ ascii ''%'') \<and>
     map_option remaining (openai_extractTableRow h now fnow resp email) =
       Some (show_int (calcRemainPercent (of_int (used_percent p))) @ ascii ''%'')"
    using h by (simp add: openai_extractTableRow_def Let_def)
  have c: "formatOpenAIUsage h resp email =
       join newline
         ([account_label (t h) @ ascii ''        '' @ or_else email (unknown (t h)) @ ascii '' ('' @
           plan_type resp @ ascii '')'',
           [],
           formatWindowName h (limit_window_seconds p),
           createProgressBar (Num (of_int (calcRemainPercent (of_int (used_percent p))))) 30 @
           ascii '' '' @ remaining_label (t h) (calcRemainPercent (of_int (used_percent p))),
           resetIn_label (t h) (formatDuration h (reset_after_seconds p)),
           [],
           formatWindowName h (limit_window_seconds s),
           createProgressBar (Num (of_int (calcRemainPercent (of_int (used_percent s))))) 30 @
           ascii '' '' @ remaining_label (t h) (calcRemainPercent (of_int (used_percent s))),
           resetIn_label (t h) (formatDuration h (reset_after_seconds s))] @
          (if limit_reached rl then [[], limitReached (t h)] else []))"
    using h by (simp add: formatOpenAIUsage_def formatWindow_def Let_def)
  have d: "(case snd (queryOpenAIUsage w (Some a)) of
           None \<Rightarrow> False
         | Some r \<Rightarrow>
             success r \<and>
             map_option length (tableRows r) = Some 1 \<and>
             tableRows r =
               map_option (\<lambda>row. [row])
                 (openai_extractTableRow w (row_now (openai_time w)) (format_now (openai_time w))
                    resp (getEmailFromJwt w token)) \<and>
             output_text r = Some (formatOpenAIUsage w resp (getEmailFromJwt w token)))"
    if g: "auth_type a = ascii ''oauth'' \<and> access a = Some token \<and> token \<noteq> [] \<and>
      (case expires a of None \<Rightarrow> True | Some e \<Rightarrow> e = 0 \<or> expiry_now (openai_time w) \<le> e) \<and>
      snd (fetchOpenAIUsage w token) = Inr resp"
  proof -
    obtain calls where f: "fetchOpenAIUsage w token = (calls, Inr resp)"
      using g by (cases "fetchOpenAIUsage w token") simp
    have ne: "\<not> (case expires a of
                   None \<Rightarrow> False
                 | Some e \<Rightarrow> e \<noteq> 0 \<and> e < expiry_now (openai_time w))"
      using g by (auto split: option.splits)
    obtain r where r: "openai_extractTableRow w (row_now (openai_time w))
        (format_now (openai_time w)) resp (getEmailFromJwt w token) = Some r"
      using row [of w "row_now (openai_time w)" "format_now (openai_time w)"
          "getEmailFromJwt w token"] by auto
    show ?thesis
      using g ne by (simp add: queryOpenAIUsage_def f r succeeded_def)
  qed
  show "openai_extractTableRow h now fnow resp email =
       openai_extractTableRow h now fnow
         (resp\<lparr>rate_limit := Some (rl\<lparr>secondary_window := s'\<rparr>)\<rparr>) email \<and>
     map_option provider (openai_extractTableRow h now fnow resp email) = Some (ascii ''OpenAI'') \<and>
     map_option used (openai_extractTableRow h now fnow resp email) =
       Some (show_int (used_percent p) @ ascii ''%'') \<and>
     map_option remaining (openai_extractTableRow h now fnow resp email) =
       Some (show_int (calcRemainPercent (of_int (used_percent p))) @ ascii ''%'') \<and>
     formatOpenAIUsage h resp email =
       join newline
         ([account_label (t h) @ ascii ''        '' @ or_else email (unknown (t h)) @ ascii '' ('' @
           plan_type resp @ ascii '')'',
           [],
           formatWindowName h (limit_window_seconds p),
           createProgressBar (Num (of_int (calcRemainPercent (of_int (used_percent p))))) 30 @
           ascii '' '' @ remaining_label (t h) (calcRemainPercent (of_int (used_percent p))),
           resetIn_label (t h) (formatDuration h (reset_after_seconds p)),
           [],
           formatWindowName h (limit_window_seconds s),
           createProgressBar (Num (of_int (calcRemainPercent (of_int (used_percent s))))) 30 @
           ascii '' '' @ remaining_label (t h) (calcRemainPercent (of_int (used_percent s))),
           resetIn_label (t h) (formatDuration h (reset_after_seconds s))] @
          (if limit_reached rl then [[], limitReached (t h)] else [])) \<and>
     (auth_type a = ascii ''oauth'' \<and> access a = Some token \<and> token \<noteq> [] \<and>
      (case expires a of None \<Rightarrow> True | Some e \<Rightarrow> e = 0 \<or> expiry_now (openai_time w) \<le> e) \<and>
      snd (fetchOpenAIUsage w token) = Inr resp \<longrightarrow>
        (case snd (queryOpenAIUsage w (Some a)) of
           None \<Rightarrow> False
         | Some r \<Rightarrow>
             success r \<and>
             map_option length (tableRows r) = Some 1 \<and>
             tableRows r =
               map_option (\<lambda>row. [row])
                 (openai_extractTableRow w (row_now (openai_time w)) (format_now (openai_time w))
                    resp (getEmailFromJwt w token)) \<and>
             output_text r = Some (formatOpenAIUsage w resp (getEmailFromJwt w token))))"
    using a b c d by blast
qed

lemma example_windows_row:
  "openai_extractTableRow openai_world 1000 1000 example_windows None =
     Some \<lparr>provider = ascii ''OpenAI'', account = ascii ''unknown'', plan = ascii ''plus'',
           used = ascii ''15%'', remaining = ascii ''85%'', resetIn = ascii ''2h 30m'',
           resetDate = ascii ''11:20 - 19/02/2026''\<rparr>"
  by code_simp

lemma example_windows_text:
  "formatOpenAIUsage openai_world example_windows None =
     ascii ''Account:        unknown (plus)'' @ newline @ newline @
     ascii ''5-hour limit'' @ newline @
     replicate 26 filledChar @ replicate 4 emptyChar @ ascii '' 85% remaining'' @ newline @
     ascii ''2h 30m'' @ newline @ newline @
     ascii ''7-day limit'' @ newline @
     replicate 21 filledChar @ replicate 9 emptyChar @ ascii '' 70% remaining'' @ newline @
     ascii ''1d''"
  by code_simp

lemma example_windows_fetch:
  "fetchOpenAIUsage openai_world (ascii ''a.b.c'') =
     ([OpenAI_usage_call (ascii ''a.b.c'') None], Inr example_windows)"
  by code_simp

lemma example_windows_email: "getEmailFromJwt openai_world (ascii ''a.b.c'') = None"
  by code_simp

lemma openai_world_time:
  "openai_time openai_world = \<lparr>expiry_now = 1000, row_now = 1000, format_now = 1000\<rparr>"
  by (simp add: openai_world_def example_world_def)

theorem openai_primary_only_witness:
  "rate_limit example_windows \<noteq> None \<and>
   snd (fetchOpenAIUsage openai_world (ascii ''a.b.c'')) = Inr example_windows \<and>
   map_option tableRows
     (snd (queryOpenAIUsage openai_world (Some (oauth_credential (ascii ''a.b.c'') None)))) =
     Some (Some [\<lparr>provider = ascii ''OpenAI'', account = ascii ''unknown'', plan = ascii ''plus'',
                  used = ascii ''15%'', remaining = ascii ''85%'', resetIn = ascii ''2h 30m'',
                  resetDate = ascii ''11:20 - 19/02/2026''\<rparr>]) \<and>
   map_option output_text
     (snd (queryOpenAIUsage openai_world (Some (oauth_credential (ascii ''a.b.c'') None)))) =
     Some (Some
       (ascii ''Account:        unknown (plus)'' @ newline @ newline @
        ascii ''5-hour limit'' @ newline @
        replicate 26 filledChar @ replicate 4 emptyChar @ ascii '' 85% remaining'' @ newline @
        ascii ''2h 30m'' @ newline @ newline @
        ascii ''7-day limit'' @ newline @
        replicate 21 filledChar @ replicate 9 emptyChar @ ascii '' 70% remaining'' @ newline @
        ascii ''1d''))"
proof -
  let ?p = "\<lparr>used_percent = 15, limit_window_seconds = 18000, reset_after_seconds = 9000\<rparr>"
  let ?s = "\<lparr>used_percent = 30, limit_window_seconds = 604800, reset_after_seconds = 86400\<rparr>"
  let ?rl = "\<lparr>limit_reached = False, primary_window = Some ?p, secondary_window = Some ?s\<rparr>"
  have n: "ascii ''a.b.c'' \<noteq> []" by (simp add: ascii_def)
  have rl: "rate_limit example_windows = Some ?rl" by (simp add: example_windows_def)
  have "case snd (queryOpenAIUsage openai_world (Some (oauth_credential (ascii ''a.b.c'') None))) of
           None \<Rightarrow> False
         | Some r \<Rightarrow>
             success r \<and>
             map_option length (tableRows r) = Some 1 \<and>
             tableRows r =
               map_option (\<lambda>row. [row])
                 (openai_extractTableRow openai_world (row_now (openai_time openai_world))
                    (format_now (openai_time openai_world)) example_windows
                    (getEmailFromJwt openai_world (ascii ''a.b.c''))) \<and>
             output_text r =
               Some (formatOpenAIUsage openai_world example_windows
                       (getEmailFromJwt openai_world (ascii ''a.b.c'')))"
    using openai_primary_only [of example_windows ?rl ?p ?s openai_world 1000 1000 None None
        "oauth_credential (ascii ''a.b.c'') None" "ascii ''a.b.c''" openai_world]
    by (simp add: rl n example_windows_fetch oauth_credential_def)
  then show ?thesis
    by (simp add: rl example_windows_fetch example_windows_email example_windows_row
        example_windows_text openai_world_time split: option.splits)
qed

section \<open>The Anthropic adapter\<close>

lemma fetchClaudeUsage_refused:
  "(case fetchClaude w tk of Rejected msg \<Rightarrow> True | Responded status body js \<Rightarrow> \<not> ok status) \<Longrightarrow>
   fetchClaudeUsage w tk = None"
  by (cases "fetchClaude w tk") (simp_all add: fetchClaudeUsage_def)

text \<open>
  The calls of a query of Anthropic: at most one refresh, then one usage call
  with the token in use.
\<close>

lemma anthropic_calls:
  assumes "access a = Some token" "token \<noteq> []"
  shows "\<exists>pre tk. (pre = [] \<or> (\<exists>r. pre = [Anthropic_refresh_call r])) \<and>
           fst (queryAnthropicUsage w (Some a)) = pre @ [Claude_usage_call tk] \<and>
           snd (queryAnthropicUsage w (Some a)) =
             (case fetchClaudeUsage w tk of
                None \<Rightarrow> Some (failure (ascii ''Anthropic: Failed to fetch usage data''))
              | Some u \<Rightarrow>
                  Some (succeeded
                          (formatClaudeUsage w (five_text (anthropic_time w))
                             (seven_text (anthropic_time w)) (Some u) tk)
                          (anthropic_extractTableRows w (five_row (anthropic_time w))
                             (seven_row (anthropic_time w)) (Some u) tk)))"
  using assms
  by (auto simp: queryAnthropicUsage_def Let_def split: option.splits)

text \<open>
  C1, as amended. When the usage call that the query makes fails in transport
  or is answered outside 2xx, \<open>fetchClaudeUsage\<close> suppresses the error and
  yields no data object, and \<open>queryAnthropicUsage\<close> returns, in both cases
  alike, the failure result with the message
  \<open>Anthropic: Failed to fetch usage data\<close>.
\<close>

theorem anthropic_fetch_failure:
  "access a = Some token \<and> token \<noteq> [] \<and>
   Claude_usage_call tk \<in> set (fst (queryAnthropicUsage w (Some a))) \<and>
   (case fetchClaude w tk of
      Rejected msg \<Rightarrow> True
    | Responded status body js \<Rightarrow> \<not> ok status) \<longrightarrow>
     fetchClaudeUsage w tk = None \<and>
     snd (queryAnthropicUsage w (Some a)) =
       Some (failure (ascii ''Anthropic: Failed to fetch usage data'')) \<and>
     \<not> success (failure (ascii ''Anthropic: Failed to fetch usage data''))"
proof
  assume h: "access a = Some token \<and> token \<noteq> [] \<and>
   Claude_usage_call tk \<in> set (fst (queryAnthropicUsage w (Some a))) \<and>
   (case fetchClaude w tk of
      Rejected msg \<Rightarrow> True
    | Responded status body js \<Rightarrow> \<not> ok status)"
  have f: "fetchClaudeUsage w tk = None"
    using h by (intro fetchClaudeUsage_refused) simp
  obtain pre tk' where pre: "pre = [] \<or> (\<exists>r. pre = [Anthropic_refresh_call r])"
    and calls: "fst (queryAnthropicUsage w (Some a)) = pre @ [Claude_usage_call tk']"
    and res: "snd (queryAnthropicUsage w (Some a)) =
             (case fetchClaudeUsage w tk' of
                None \<Rightarrow> Some (failure (ascii ''Anthropic: Failed to fetch usage data''))
              | Some u \<Rightarrow>
                  Some (succeeded
                          (formatClaudeUsage w (five_text (anthropic_time w))
                             (seven_text (anthropic_time w)) (Some u) tk')
                          (anthropic_extractTableRows w (five_row (anthropic_time w))
                             (seven_row (anthropic_time w)) (Some u) tk')))"
    using anthropic_calls [of a token w] h by blast
  have "Claude_usage_call tk \<in> set (pre @ [Claude_usage_call tk'])"
    using h calls by simp
  then have "tk = tk'" using pre by auto
  then have "snd (queryAnthropicUsage w (Some a)) =
       Some (failure (ascii ''Anthropic: Failed to fetch usage data''))"
    using res f by simp
  then show "fetchClaudeUsage w tk = None \<and>
     snd (queryAnthropicUsage w (Some a)) =
       Some (failure (ascii ''Anthropic: Failed to fetch usage data'')) \<and>
     \<not> success (failure (ascii ''Anthropic: Failed to fetch usage data''))"
    using f by (simp add: failure_def)
qed

lemma refusing_world_fields:
  "fetchClaude refusing_world tok =
     (if tok = ascii ''tok'' then Responded 401 (ascii ''Unauthorized'') (Inl [])
      else Responded 200 [] (Inr (Some example_claude)))"
  by (simp add: refusing_world_def)

lemma refusing_world_calls:
  "fst (queryAnthropicUsage refusing_world (Some (oauth_credential (ascii ''tok'') None))) =
     [Claude_usage_call (ascii ''tok'')]"
  by (simp add: queryAnthropicUsage_def oauth_credential_def Let_def ascii_def
      split: option.splits)

theorem anthropic_fetch_failure_witness:
  "fetchClaude refusing_world (ascii ''tok'') =
     Responded 401 (ascii ''Unauthorized'') (Inl []) \<and> \<not> ok 401 \<and>
   fetchClaude refusing_world (ascii ''other'') = Responded 200 [] (Inr (Some example_claude)) \<and>
   fst (queryAnthropicUsage refusing_world (Some (oauth_credential (ascii ''tok'') None))) =
     [Claude_usage_call (ascii ''tok'')] \<and>
   snd (queryAnthropicUsage refusing_world (Some (oauth_credential (ascii ''tok'') None))) =
     Some (failure (ascii ''Anthropic: Failed to fetch usage data''))"
proof -
  have n: "ascii ''tok'' \<noteq> []" "ascii ''other'' \<noteq> ascii ''tok''" by (simp_all add: ascii_def)
  have acc: "access (oauth_credential (ascii ''tok'') None) = Some (ascii ''tok'')"
    by (simp add: oauth_credential_def)
  show ?thesis
    using anthropic_fetch_failure [of "oauth_credential (ascii ''tok'') None" "ascii ''tok''"
        "ascii ''tok''" refusing_world]
    by (simp add: n acc refusing_world_fields refusing_world_calls ok_def)
qed

text \<open>
  A usage endpoint that answers 500: the result is the failure, not a success
  with no rows and the no-quota-data text.
\<close>

theorem anthropic_non_2xx_counterexample:
  "fetchClaude example_world (ascii ''tok'') =
     Responded 500 (ascii ''Internal Server Error'') (Inl []) \<and>
   queryAnthropicUsage example_world (Some (oauth_credential (ascii ''tok'') None)) =
     ([Claude_usage_call (ascii ''tok'')],
      Some \<lparr>success = False, output_text = None,
            error = Some (ascii ''Anthropic: Failed to fetch usage data''),
            tableRows = None\<rparr>)"
proof -
  have n: "ascii ''tok'' \<noteq> []" by (simp add: ascii_def)
  note r = example_world_fields
  have f: "fetchClaudeUsage example_world tk = None" for tk
    by (simp add: fetchClaudeUsage_def r ok_def)
  show ?thesis
    by (simp add: queryAnthropicUsage_def oauth_credential_def n r f failure_def)
qed

text \<open>
  C6. For a usage response with a five-hour window at utilization 25 and a
  seven-day window at utilization 40 the adapter produces two rows, with the
  plans \<open>Claude Pro (5h)\<close> and \<open>Claude Pro (7d)\<close> in this order, both of the
  provider \<open>Anthropic\<close>, with \<open>25%\<close> and \<open>40%\<close> used.
\<close>

theorem anthropic_two_rows:
  "five_hour d = Some f \<and> utilization f = 25 \<and> seven_day d = Some s \<and> utilization s = 40 \<longrightarrow>
     length (anthropic_extractTableRows w ck5 ck7 (Some d) token) = 2 \<and>
     map plan (anthropic_extractTableRows w ck5 ck7 (Some d) token) =
       [ascii ''Claude Pro (5h)'', ascii ''Claude Pro (7d)''] \<and>
     map provider (anthropic_extractTableRows w ck5 ck7 (Some d) token) =
       [ascii ''Anthropic'', ascii ''Anthropic''] \<and>
     map used (anthropic_extractTableRows w ck5 ck7 (Some d) token) =
       [ascii ''25%'', ascii ''40%''] \<and>
     map remaining (anthropic_extractTableRows w ck5 ck7 (Some d) token) =
       [ascii ''75%'', ascii ''60%''] \<and>
     (access a = Some token \<and> token \<noteq> [] \<and> refresh a = None \<and>
      fetchClaudeUsage w token = Some d \<longrightarrow>
        queryAnthropicUsage w (Some a) =
          ([Claude_usage_call token],
           Some (succeeded
                   (formatClaudeUsage w (five_text (anthropic_time w))
                      (seven_text (anthropic_time w)) (Some d) token)
                   (anthropic_extractTableRows w (five_row (anthropic_time w))
                      (seven_row (anthropic_time w)) (Some d) token))))"
proof
  assume h: "five_hour d = Some f \<and> utilization f = 25 \<and> seven_day d = Some s \<and>
    utilization s = 40"
  have r5: "provider (claude_window_row w ck m l f) = ascii ''Anthropic'' \<and>
      plan (claude_window_row w ck m l f) = l \<and>
      used (claude_window_row w ck m l f) = ascii ''25%'' \<and>
      remaining (claude_window_row w ck m l f) = ascii ''75%''" for m l ck
    using h
    by (simp add: claude_window_row_def Let_def Math_round_numeral calcRemainPercent_examples
        show_int_examples ascii_def)
  have r7: "provider (claude_window_row w ck m l s) = ascii ''Anthropic'' \<and>
      plan (claude_window_row w ck m l s) = l \<and>
      used (claude_window_row w ck m l s) = ascii ''40%'' \<and>
      remaining (claude_window_row w ck m l s) = ascii ''60%''" for m l ck
    using h
    by (simp add: claude_window_row_def Let_def Math_round_numeral calcRemainPercent_examples
        show_int_examples ascii_def)
  have rows: "anthropic_extractTableRows w c5 c7 (Some d) token =
      [claude_window_row w c5 (maskString token 4) (ascii ''Claude Pro (5h)'') f,
       claude_window_row w c7 (maskString token 4) (ascii ''Claude Pro (7d)'') s]" for c5 c7
    using h by (simp add: anthropic_extractTableRows_def Let_def)
  have q: "queryAnthropicUsage w (Some a) =
          ([Claude_usage_call token],
           Some (succeeded
                   (formatClaudeUsage w (five_text (anthropic_time w))
                      (seven_text (anthropic_time w)) (Some d) token)
                   (anthropic_extractTableRows w (five_row (anthropic_time w))
                      (seven_row (anthropic_time w)) (Some d) token)))"
    if "access a = Some token \<and> token \<noteq> [] \<and> refresh a = None \<and>
      fetchClaudeUsage w token = Some d"
    using that by (simp add: queryAnthropicUsage_def Let_def)
  show "length (anthropic_extractTableRows w ck5 ck7 (Some d) token) = 2 \<and>
     map plan (anthropic_extractTableRows w ck5 ck7 (Some d) token) =
       [ascii ''Claude Pro (5h)'', ascii ''Claude Pro (7d)''] \<and>
     map provider (anthropic_extractTableRows w ck5 ck7 (Some d) token) =
       [ascii ''Anthropic'', ascii ''Anthropic''] \<and>
     map used (anthropic_extractTableRows w ck5 ck7 (Some d) token) =
       [ascii ''25%'', ascii ''40%''] \<and>
     map remaining (anthropic_extractTableRows w ck5 ck7 (Some d) token) =
       [ascii ''75%'', ascii ''60%''] \<and>
     (access a = Some token \<and> token \<noteq> [] \<and> refresh a = None \<and>
      fetchClaudeUsage w token = Some d \<longrightarrow>
        queryAnthropicUsage w (Some a) =
          ([Claude_usage_call token],
           Some (succeeded
                   (formatClaudeUsage w (five_text (anthropic_time w))
                      (seven_text (anthropic_time w)) (Some d) token)
                   (anthropic_extractTableRows w (five_row (anthropic_time w))
                      (seven_row (anthropic_time w)) (Some d) token))))"
    using q by (simp add: rows r5 r7)
qed

lemma example_claude_rows:
  "anthropic_extractTableRows claude_world (row_at 1000) (row_at 1000) (Some example_claude)
     (ascii ''tok'') =
     [\<lparr>provider = ascii ''Anthropic'', account = ascii ''tok'', plan = ascii ''Claude Pro (5h)'',
       used = ascii ''25%'', remaining = ascii ''75%'', resetIn = ascii ''-'',
       resetDate = ascii ''-''\<rparr>,
      \<lparr>provider = ascii ''Anthropic'', account = ascii ''tok'', plan = ascii ''Claude Pro (7d)'',
       used = ascii ''40%'', remaining = ascii ''60%'', resetIn = ascii ''-'',
       resetDate = ascii ''-''\<rparr>]"
  by code_simp

lemma claude_world_fields:
  "fetchClaude claude_world tok = Responded 200 [] (Inr (Some example_claude))"
  "anthropic_time claude_world =
     \<lparr>refresh_now = 1000, five_row = row_at 1000, seven_row = row_at 1000,
      five_text = text_at 1000, seven_text = text_at 1000\<rparr>"
  by (simp_all add: claude_world_def example_world_def)

theorem anthropic_two_rows_witness:
  "five_hour example_claude = Some \<lparr>utilization = 25, resets_at = []\<rparr> \<and>
   seven_day example_claude = Some \<lparr>utilization = 40, resets_at = []\<rparr> \<and>
   fetchClaudeUsage claude_world (ascii ''tok'') = Some example_claude \<and>
   anthropic_extractTableRows claude_world (row_at 1000) (row_at 1000) (Some example_claude)
     (ascii ''tok'') =
     [\<lparr>provider = ascii ''Anthropic'', account = ascii ''tok'', plan = ascii ''Claude Pro (5h)'',
       used = ascii ''25%'', remaining = ascii ''75%'', resetIn = ascii ''-'',
       resetDate = ascii ''-''\<rparr>,
      \<lparr>provider = ascii ''Anthropic'', account = ascii ''tok'', plan = ascii ''Claude Pro (7d)'',
       used = ascii ''40%'', remaining = ascii ''60%'', resetIn = ascii ''-'',
       resetDate = ascii ''-''\<rparr>] \<and>
   map used (anthropic_extractTableRows claude_world (row_at 1000) (row_at 1000)
     (Some example_claude) (ascii ''tok'')) = [ascii ''25%'', ascii ''40%''] \<and>
   map_option tableRows
     (snd (queryAnthropicUsage claude_world (Some (oauth_credential (ascii ''tok'') None)))) =
     Some (Some (anthropic_extractTableRows claude_world (row_at 1000) (row_at 1000)
       (Some example_claude) (ascii ''tok'')))"
proof -
  have f: "fetchClaudeUsage claude_world (ascii ''tok'') = Some example_claude"
    by (simp add: fetchClaudeUsage_def claude_world_fields ok_def)
  have n: "ascii ''tok'' \<noteq> []" by (simp add: ascii_def)
  have e: "five_hour example_claude = Some \<lparr>utilization = 25, resets_at = []\<rparr>"
    "seven_day example_claude = Some \<lparr>utilization = 40, resets_at = []\<rparr>"
    by (simp_all add: example_claude_def)
  show ?thesis
    using anthropic_two_rows [of example_claude "\<lparr>utilization = 25, resets_at = []\<rparr>"
        "\<lparr>utilization = 40, resets_at = []\<rparr>" claude_world "row_at 1000" "row_at 1000"
        "ascii ''tok''" "oauth_credential (ascii ''tok'') None"]
    by (simp add: f n e example_claude_rows claude_world_fields oauth_credential_def
        succeeded_def)
qed

section \<open>The countdown of a reset time\<close>























end
